theory Spec2Isabelle
  imports Main "HOL-Library.Word"
begin

unbundle bit_operations_syntax

section \<open>Constants and wire types of applespi.c\<close>

type_synonym u8 = "8 word"
type_synonym le16 = "16 word"

definition APPLESPI_PACKET_SIZE :: nat where "APPLESPI_PACKET_SIZE = 256"

definition PACKET_KEYBOARD :: "16 word" where "PACKET_KEYBOARD = 288"
definition PACKET_TOUCHPAD :: "16 word" where "PACKET_TOUCHPAD = 544"
definition PACKET_NOTHING :: "16 word" where "PACKET_NOTHING = 53312"

definition MAX_ROLLOVER :: nat where "MAX_ROLLOVER = 6"
definition MAX_FINGERS :: nat where "MAX_FINGERS = 6"
definition MAX_FINGER_ORIENTATION :: int where "MAX_FINGER_ORIENTATION = 16384"

definition Y_MIN :: int where "Y_MIN = - 203"
definition Y_MAX :: int where "Y_MAX = 6803"

subsection \<open>Key codes of the input layer\<close>

text \<open>
  The driver names keys by the \<^verbatim>\<open>KEY_*\<close> and \<^verbatim>\<open>BTN_*\<close> macros of the kernel's
  input-event-codes header, which is not part of the driver. They are given here with the
  values of that header. The results below speak about table entries
  (\<open>applespi_scancodes ! i\<close>); the numbers only show up when a table entry is evaluated.
\<close>

named_theorems key_code \<open>values of the key-code macros\<close>

definition KEY_ESC :: nat where [key_code]: "KEY_ESC = 1"
definition KEY_1 :: nat where [key_code]: "KEY_1 = 2"
definition KEY_2 :: nat where [key_code]: "KEY_2 = 3"
definition KEY_3 :: nat where [key_code]: "KEY_3 = 4"
definition KEY_4 :: nat where [key_code]: "KEY_4 = 5"
definition KEY_5 :: nat where [key_code]: "KEY_5 = 6"
definition KEY_6 :: nat where [key_code]: "KEY_6 = 7"
definition KEY_7 :: nat where [key_code]: "KEY_7 = 8"
definition KEY_8 :: nat where [key_code]: "KEY_8 = 9"
definition KEY_9 :: nat where [key_code]: "KEY_9 = 10"
definition KEY_0 :: nat where [key_code]: "KEY_0 = 11"
definition KEY_MINUS :: nat where [key_code]: "KEY_MINUS = 12"
definition KEY_EQUAL :: nat where [key_code]: "KEY_EQUAL = 13"
definition KEY_BACKSPACE :: nat where [key_code]: "KEY_BACKSPACE = 14"
definition KEY_TAB :: nat where [key_code]: "KEY_TAB = 15"
definition KEY_Q :: nat where [key_code]: "KEY_Q = 16"
definition KEY_W :: nat where [key_code]: "KEY_W = 17"
definition KEY_E :: nat where [key_code]: "KEY_E = 18"
definition KEY_R :: nat where [key_code]: "KEY_R = 19"
definition KEY_T :: nat where [key_code]: "KEY_T = 20"
definition KEY_Y :: nat where [key_code]: "KEY_Y = 21"
definition KEY_U :: nat where [key_code]: "KEY_U = 22"
definition KEY_I :: nat where [key_code]: "KEY_I = 23"
definition KEY_O :: nat where [key_code]: "KEY_O = 24"
definition KEY_P :: nat where [key_code]: "KEY_P = 25"
definition KEY_LEFTBRACE :: nat where [key_code]: "KEY_LEFTBRACE = 26"
definition KEY_RIGHTBRACE :: nat where [key_code]: "KEY_RIGHTBRACE = 27"
definition KEY_ENTER :: nat where [key_code]: "KEY_ENTER = 28"
definition KEY_LEFTCTRL :: nat where [key_code]: "KEY_LEFTCTRL = 29"
definition KEY_A :: nat where [key_code]: "KEY_A = 30"
definition KEY_S :: nat where [key_code]: "KEY_S = 31"
definition KEY_D :: nat where [key_code]: "KEY_D = 32"
definition KEY_F :: nat where [key_code]: "KEY_F = 33"
definition KEY_G :: nat where [key_code]: "KEY_G = 34"
definition KEY_H :: nat where [key_code]: "KEY_H = 35"
definition KEY_J :: nat where [key_code]: "KEY_J = 36"
definition KEY_K :: nat where [key_code]: "KEY_K = 37"
definition KEY_L :: nat where [key_code]: "KEY_L = 38"
definition KEY_SEMICOLON :: nat where [key_code]: "KEY_SEMICOLON = 39"
definition KEY_APOSTROPHE :: nat where [key_code]: "KEY_APOSTROPHE = 40"
definition KEY_GRAVE :: nat where [key_code]: "KEY_GRAVE = 41"
definition KEY_LEFTSHIFT :: nat where [key_code]: "KEY_LEFTSHIFT = 42"
definition KEY_BACKSLASH :: nat where [key_code]: "KEY_BACKSLASH = 43"
definition KEY_Z :: nat where [key_code]: "KEY_Z = 44"
definition KEY_X :: nat where [key_code]: "KEY_X = 45"
definition KEY_C :: nat where [key_code]: "KEY_C = 46"
definition KEY_V :: nat where [key_code]: "KEY_V = 47"
definition KEY_B :: nat where [key_code]: "KEY_B = 48"
definition KEY_N :: nat where [key_code]: "KEY_N = 49"
definition KEY_M :: nat where [key_code]: "KEY_M = 50"
definition KEY_COMMA :: nat where [key_code]: "KEY_COMMA = 51"
definition KEY_DOT :: nat where [key_code]: "KEY_DOT = 52"
definition KEY_SLASH :: nat where [key_code]: "KEY_SLASH = 53"
definition KEY_RIGHTSHIFT :: nat where [key_code]: "KEY_RIGHTSHIFT = 54"
definition KEY_LEFTALT :: nat where [key_code]: "KEY_LEFTALT = 56"
definition KEY_SPACE :: nat where [key_code]: "KEY_SPACE = 57"
definition KEY_CAPSLOCK :: nat where [key_code]: "KEY_CAPSLOCK = 58"
definition KEY_F1 :: nat where [key_code]: "KEY_F1 = 59"
definition KEY_F2 :: nat where [key_code]: "KEY_F2 = 60"
definition KEY_F3 :: nat where [key_code]: "KEY_F3 = 61"
definition KEY_F4 :: nat where [key_code]: "KEY_F4 = 62"
definition KEY_F5 :: nat where [key_code]: "KEY_F5 = 63"
definition KEY_F6 :: nat where [key_code]: "KEY_F6 = 64"
definition KEY_F7 :: nat where [key_code]: "KEY_F7 = 65"
definition KEY_F8 :: nat where [key_code]: "KEY_F8 = 66"
definition KEY_F9 :: nat where [key_code]: "KEY_F9 = 67"
definition KEY_F10 :: nat where [key_code]: "KEY_F10 = 68"
definition KEY_F11 :: nat where [key_code]: "KEY_F11 = 87"
definition KEY_F12 :: nat where [key_code]: "KEY_F12 = 88"
definition KEY_RIGHTALT :: nat where [key_code]: "KEY_RIGHTALT = 100"
definition KEY_UP :: nat where [key_code]: "KEY_UP = 103"
definition KEY_LEFT :: nat where [key_code]: "KEY_LEFT = 105"
definition KEY_RIGHT :: nat where [key_code]: "KEY_RIGHT = 106"
definition KEY_DOWN :: nat where [key_code]: "KEY_DOWN = 108"
definition KEY_LEFTMETA :: nat where [key_code]: "KEY_LEFTMETA = 125"
definition KEY_RIGHTMETA :: nat where [key_code]: "KEY_RIGHTMETA = 126"
definition BTN_LEFT :: nat where [key_code]: "BTN_LEFT = 272"

definition MT_TOOL_FINGER :: nat where "MT_TOOL_FINGER = 0"

text \<open>The key-index table: 83 entries, indexed by the raw key code of a keyboard frame.\<close>

definition applespi_scancodes :: "nat list" where
  "applespi_scancodes =
    [0, 0, 0, 0,
     KEY_A, KEY_B, KEY_C, KEY_D, KEY_E, KEY_F, KEY_G, KEY_H, KEY_I, KEY_J,
     KEY_K, KEY_L, KEY_M, KEY_N, KEY_O, KEY_P, KEY_Q, KEY_R, KEY_S, KEY_T,
     KEY_U, KEY_V, KEY_W, KEY_X, KEY_Y, KEY_Z,
     KEY_1, KEY_2, KEY_3, KEY_4, KEY_5, KEY_6, KEY_7, KEY_8, KEY_9, KEY_0,
     KEY_ENTER, KEY_ESC, KEY_BACKSPACE, KEY_TAB, KEY_SPACE, KEY_MINUS,
     KEY_EQUAL, KEY_LEFTBRACE, KEY_RIGHTBRACE, KEY_BACKSLASH, 0,
     KEY_SEMICOLON, KEY_APOSTROPHE, KEY_GRAVE, KEY_COMMA, KEY_DOT, KEY_SLASH,
     KEY_CAPSLOCK,
     KEY_F1, KEY_F2, KEY_F3, KEY_F4, KEY_F5, KEY_F6, KEY_F7, KEY_F8, KEY_F9,
     KEY_F10, KEY_F11, KEY_F12, 0, 0, 0, 0, 0, 0, 0, 0, 0,
     KEY_RIGHT, KEY_LEFT, KEY_DOWN, KEY_UP]"

definition applespi_controlcodes :: "nat list" where
  "applespi_controlcodes =
    [KEY_LEFTCTRL, KEY_LEFTSHIFT, KEY_LEFTALT, KEY_LEFTMETA, 0,
     KEY_RIGHTSHIFT, KEY_RIGHTALT, KEY_RIGHTMETA]"

subsection \<open>Calls into the input layer\<close>

text \<open>
  The driver owns no event queue: it reports by calling the input layer. A run of the
  driver is observed as the list of these calls, in program order. \<open>Keyboard_input\<close> is
  \<^verbatim>\<open>poll_dev->input\<close>, \<open>Touchpad_input\<close> is \<^verbatim>\<open>touchpad_input_dev\<close>.
\<close>

datatype input_dev = Keyboard_input | Touchpad_input

datatype abs_axis =
    ABS_MT_TOUCH_MAJOR | ABS_MT_TOUCH_MINOR
  | ABS_MT_WIDTH_MAJOR | ABS_MT_WIDTH_MINOR
  | ABS_MT_ORIENTATION
  | ABS_MT_POSITION_X | ABS_MT_POSITION_Y

datatype event =
    Input_report_key input_dev nat int
  | Input_report_abs input_dev abs_axis int
  | Input_mt_slot input_dev int
  | Input_mt_report_slot_state input_dev nat bool
  | Input_mt_sync_frame input_dev
  | Input_sync input_dev

text \<open>
  C reads past the end of an array without noticing; the model makes such a read the
  error value, so that a run that would index \<open>applespi_scancodes\<close> beyond its 83
  entries ends in \<open>Inl Scancode_out_of_bounds\<close>.
\<close>

datatype error = Scancode_out_of_bounds

section \<open>Frame layouts\<close>

text \<open>
  A frame is the 256-byte receive buffer. \<open>packet_type\<close> is a host-order \<^verbatim>\<open>u16\<close>; the
  driver runs on little-endian x86, and the finger fields are \<^verbatim>\<open>__le16\<close>, so every
  16-bit field is read low byte first.
\<close>

definition le16_to_cpu :: "u8 \<Rightarrow> u8 \<Rightarrow> 16 word" where
  "le16_to_cpu lo hi = word_of_nat (unat lo + 256 * unat hi)"

definition le16_at :: "u8 list \<Rightarrow> nat \<Rightarrow> 16 word" where
  "le16_at buf off = le16_to_cpu (buf ! off) (buf ! (off + 1))"

text \<open>
  \<^verbatim>\<open>struct keyboard_protocol\<close>: \<open>packet_type\<close> at byte 0, \<open>counter\<close> at 11,
  \<open>modifiers\<close> at 17, \<open>keys_pressed[6]\<close> at 19..24, \<open>fn_pressed\<close> at 25, \<open>crc_16\<close>
  at 26; the \<open>unknown\<close> and \<open>unused\<close> paddings are never read.
\<close>

record keyboard_protocol =
  packet_type :: "16 word"
  counter :: u8
  modifiers :: u8
  keys_pressed :: "u8 list"
  fn_pressed :: u8
  crc_16 :: "16 word"

definition keyboard_protocol_of :: "u8 list \<Rightarrow> keyboard_protocol" where
  "keyboard_protocol_of buf =
     \<lparr> packet_type = le16_at buf 0,
       counter = buf ! 11,
       modifiers = buf ! 17,
       keys_pressed = map (\<lambda>i. buf ! (19 + i)) [0..<6],
       fn_pressed = buf ! 25,
       crc_16 = le16_at buf 26 \<rparr>"

section \<open>Keyboard path of \<open>applespi_got_data\<close>\<close>

text \<open>The checked read of \<open>applespi_scancodes[c]\<close>.\<close>

definition scancode :: "u8 \<Rightarrow> error + nat" where
  "scancode c =
     (if unat c < length applespi_scancodes then Inr (applespi_scancodes ! unat c)
      else Inl Scancode_out_of_bounds)"

text \<open>The inner loop over \<open>j\<close>: is \<open>k\<close> among the new frame's \<open>keys_pressed\<close>?\<close>

fun still_pressed :: "u8 \<Rightarrow> u8 list \<Rightarrow> bool" where
  "still_pressed k [] = False"
| "still_pressed k (x # xs) = (if k = x then True else still_pressed k xs)"

text \<open>
  The first loop: for each slot of \<open>last_keys_pressed\<close>, in order, report value 0 for
  \<open>applespi_scancodes[last_keys_pressed[i]]\<close> unless the code is still pressed. The table
  read carries no bounds check in the source.
\<close>

fun report_released :: "u8 list \<Rightarrow> u8 list \<Rightarrow> error + event list" where
  "report_released [] keys = Inr []"
| "report_released (k # prev) keys =
     (if still_pressed k keys then report_released prev keys
      else (case scancode k of
              Inl e \<Rightarrow> Inl e
            | Inr code \<Rightarrow>
                (case report_released prev keys of
                   Inl e \<Rightarrow> Inl e
                 | Inr evs \<Rightarrow> Inr (Input_report_key Keyboard_input code 0 # evs))))"

text \<open>
  The second loop: for each slot of the new \<open>keys_pressed\<close>, in order, report value 1
  when the code is below \<^verbatim>\<open>sizeof(applespi_scancodes)\<close> and above 0.
\<close>

fun report_pressed :: "u8 list \<Rightarrow> error + event list" where
  "report_pressed [] = Inr []"
| "report_pressed (k # keys) =
     (if unat k < length applespi_scancodes \<and> 0 < k then
        (case scancode k of
           Inl e \<Rightarrow> Inl e
         | Inr code \<Rightarrow>
             (case report_pressed keys of
                Inl e \<Rightarrow> Inl e
              | Inr evs \<Rightarrow> Inr (Input_report_key Keyboard_input code 1 # evs)))
      else report_pressed keys)"

text \<open>
  The third loop, \<open>n\<close> more rounds starting at bit \<open>i\<close>: \<^verbatim>\<open>test_bit(i, &modifiers)\<close> on
  a little-endian host is bit \<open>i\<close> of the \<open>modifiers\<close> byte for \<open>i < 8\<close>.
\<close>

fun report_modifiers_from :: "nat \<Rightarrow> nat \<Rightarrow> u8 \<Rightarrow> event list" where
  "report_modifiers_from i 0 m = []"
| "report_modifiers_from i (Suc n) m =
     (if bit m i then Input_report_key Keyboard_input (applespi_controlcodes ! i) 1
      else Input_report_key Keyboard_input (applespi_controlcodes ! i) 0)
     # report_modifiers_from (Suc i) n m"

definition report_modifiers :: "u8 \<Rightarrow> event list" where
  "report_modifiers m = report_modifiers_from 0 8 m"

section \<open>Touchpad path: \<open>report_tp_state\<close>\<close>

text \<open>
  \<^verbatim>\<open>struct tp_finger\<close>: fifteen 16-bit fields, 30 bytes; the two \<open>unused\<close> words and the
  \<open>padding\<close> are never read. The record holds the fields after \<^verbatim>\<open>le16_to_cpu\<close>.
\<close>

record tp_finger =
  origin :: le16
  abs_x :: le16
  abs_y :: le16
  rel_x :: le16
  rel_y :: le16
  tool_major :: le16
  tool_minor :: le16
  orientation :: le16
  touch_major :: le16
  touch_minor :: le16
  pressure :: le16
  multi :: le16

definition tp_finger_at :: "u8 list \<Rightarrow> nat \<Rightarrow> tp_finger" where
  "tp_finger_at buf off =
     \<lparr> origin = le16_at buf off,
       abs_x = le16_at buf (off + 2),
       abs_y = le16_at buf (off + 4),
       rel_x = le16_at buf (off + 6),
       rel_y = le16_at buf (off + 8),
       tool_major = le16_at buf (off + 10),
       tool_minor = le16_at buf (off + 12),
       orientation = le16_at buf (off + 14),
       touch_major = le16_at buf (off + 16),
       touch_minor = le16_at buf (off + 18),
       pressure = le16_at buf (off + 24),
       multi = le16_at buf (off + 26) \<rparr>"

text \<open>
  \<^verbatim>\<open>struct touchpad_protocol\<close>, as far as the driver reads it: \<open>number_of_fingers\<close> at
  byte 6, \<open>clicked\<close> at 17, \<open>fingers[MAX_FINGERS]\<close> from byte 64 on, 30 bytes each
  (the last finger ends at byte 243, inside the 256-byte frame).
\<close>

record touchpad_protocol =
  number_of_fingers :: u8
  clicked :: u8
  fingers :: "tp_finger list"

definition touchpad_protocol_of :: "u8 list \<Rightarrow> touchpad_protocol" where
  "touchpad_protocol_of buf =
     \<lparr> number_of_fingers = buf ! 6,
       clicked = buf ! 17,
       fingers = map (\<lambda>i. tp_finger_at buf (64 + 30 * i)) [0..<MAX_FINGERS] \<rparr>"

text \<open>\<^verbatim>\<open>(signed short)le16_to_cpu(x)\<close>.\<close>

definition raw2int :: "le16 \<Rightarrow> int" where
  "raw2int x = sint x"

text \<open>\<^verbatim>\<open>struct input_mt_pos { s16 x, y; }\<close> of the input layer: a store truncates to 16 bits.\<close>

type_synonym input_mt_pos = "16 word \<times> 16 word"

definition report_finger_data :: "int \<Rightarrow> input_mt_pos \<Rightarrow> tp_finger \<Rightarrow> event list" where
  "report_finger_data slot p f =
     [Input_mt_slot Touchpad_input slot,
      Input_mt_report_slot_state Touchpad_input MT_TOOL_FINGER True,
      Input_report_abs Touchpad_input ABS_MT_TOUCH_MAJOR (push_bit 1 (raw2int (touch_major f))),
      Input_report_abs Touchpad_input ABS_MT_TOUCH_MINOR (push_bit 1 (raw2int (touch_minor f))),
      Input_report_abs Touchpad_input ABS_MT_WIDTH_MAJOR (push_bit 1 (raw2int (tool_major f))),
      Input_report_abs Touchpad_input ABS_MT_WIDTH_MINOR (push_bit 1 (raw2int (tool_minor f))),
      Input_report_abs Touchpad_input ABS_MT_ORIENTATION
        (MAX_FINGER_ORIENTATION - raw2int (orientation f)),
      Input_report_abs Touchpad_input ABS_MT_POSITION_X (sint (fst p)),
      Input_report_abs Touchpad_input ABS_MT_POSITION_Y (sint (snd p))]"

text \<open>
  The first loop of \<open>report_tp_state\<close>, over the remaining fingers: a finger whose
  \<open>touch_major\<close> is 0 is skipped, any other stores its position at \<open>pos[n]\<close> and
  advances \<open>n\<close>.
\<close>

fun tp_positions :: "tp_finger list \<Rightarrow> input_mt_pos list \<Rightarrow> nat \<Rightarrow> input_mt_pos list \<times> nat" where
  "tp_positions [] ps n = (ps, n)"
| "tp_positions (f # fs) ps n =
     (if raw2int (touch_major f) = 0 then tp_positions fs ps n
      else tp_positions fs
             (ps[n := (word_of_int (raw2int (abs_x f)),
                       word_of_int (Y_MIN + Y_MAX - raw2int (abs_y f)))])
             (n + 1))"

section \<open>Driver state\<close>

text \<open>
  \<^verbatim>\<open>struct applespi_data\<close>. The arrays are lists of their declared sizes (256-byte
  buffers, 6 key codes, 6 positions, 6 slots). \<open>touchpad_mt\<close> stands for the contact
  tracking state that the input layer keeps inside \<^verbatim>\<open>touchpad_input_dev\<close>; the driver
  never looks into it.
\<close>

record 'mt applespi_data =
  tx_buffer :: "u8 list"
  rx_buffer :: "u8 list"
  last_keys_pressed :: "u8 list"
  pos :: "input_mt_pos list"
  slots :: "int list"
  touchpad_mt :: 'mt

definition applespi_data_ok :: "'mt applespi_data \<Rightarrow> bool" where
  "applespi_data_ok applespi \<longleftrightarrow>
     length (tx_buffer applespi) = APPLESPI_PACKET_SIZE \<and>
     length (rx_buffer applespi) = APPLESPI_PACKET_SIZE \<and>
     length (last_keys_pressed applespi) = MAX_ROLLOVER \<and>
     length (pos applespi) = MAX_FINGERS \<and>
     length (slots applespi) = MAX_FINGERS"

text \<open>
  \<^verbatim>\<open>input_mt_assign_slots(input, slots, pos, n, 0)\<close> belongs to the input layer and is a
  parameter here: from the tracking state and the \<open>n\<close> positions it yields the slot
  number it stores in \<open>slots[i]\<close> for each \<open>i < n\<close>, and the next tracking state.
\<close>

type_synonym 'mt assign_slots = "'mt \<Rightarrow> input_mt_pos list \<Rightarrow> (nat \<Rightarrow> int) \<times> 'mt"

definition report_tp_state ::
  "'mt assign_slots \<Rightarrow> 'mt applespi_data \<Rightarrow> touchpad_protocol \<Rightarrow> event list \<times> 'mt applespi_data" where
  "report_tp_state input_mt_assign_slots applespi t =
     (let (pos', n) = tp_positions (fingers t) (pos applespi) 0;
          (slot_of, mt') = input_mt_assign_slots (touchpad_mt applespi) (take n pos');
          slots' = map slot_of [0..<n] @ drop n (slots applespi)
      in (concat (map (\<lambda>i. report_finger_data (slots' ! i) (pos' ! i) (fingers t ! i)) [0..<n])
          @ [Input_mt_sync_frame Touchpad_input,
             Input_report_key Touchpad_input BTN_LEFT (uint (clicked t)),
             Input_sync Touchpad_input],
          applespi\<lparr>pos := pos', slots := slots', touchpad_mt := mt'\<rparr>))"

section \<open>Frame dispatch: \<open>applespi_got_data\<close>\<close>

definition applespi_got_data ::
  "'mt assign_slots \<Rightarrow> 'mt applespi_data \<Rightarrow> error + (event list \<times> 'mt applespi_data)" where
  "applespi_got_data input_mt_assign_slots applespi =
     (let kp = keyboard_protocol_of (rx_buffer applespi) in
      if packet_type kp = PACKET_NOTHING then Inr ([], applespi)
      else if packet_type kp = PACKET_KEYBOARD then
        (case report_released (last_keys_pressed applespi) (keys_pressed kp) of
           Inl e \<Rightarrow> Inl e
         | Inr released \<Rightarrow>
             (case report_pressed (keys_pressed kp) of
                Inl e \<Rightarrow> Inl e
              | Inr pressed \<Rightarrow>
                  Inr (released @ pressed @ report_modifiers (modifiers kp)
                         @ [Input_sync Keyboard_input],
                       applespi\<lparr>last_keys_pressed := keys_pressed kp\<rparr>)))
      else if packet_type kp = PACKET_TOUCHPAD then
        Inr (report_tp_state input_mt_assign_slots applespi
               (touchpad_protocol_of (rx_buffer applespi)))
      else Inr ([], applespi))"

section \<open>Bus transactions\<close>

text \<open>
  A \<^verbatim>\<open>struct spi_transfer\<close> as the driver fills it in: which of its two buffers is the
  transmit or the receive buffer of the transfer, the length, \<open>cs_change\<close> and the clock.
\<close>

datatype buffer = Tx_buffer | Rx_buffer

record spi_transfer =
  tx_buf :: "buffer option"
  rx_buf :: "buffer option"
  len :: nat
  cs_change :: bool
  speed_hz :: nat

text \<open>The message built by \<open>applespi_sync_write_and_response\<close>: \<open>t1\<close>, \<open>t2\<close>, \<open>t3\<close>.\<close>

definition write_and_response_message :: "spi_transfer list" where
  "write_and_response_message =
     [\<lparr> tx_buf = Some Tx_buffer, rx_buf = None, len = APPLESPI_PACKET_SIZE,
        cs_change = True, speed_hz = 400000 \<rparr>,
      \<lparr> tx_buf = None, rx_buf = Some Rx_buffer, len = 4,
        cs_change = True, speed_hz = 400000 \<rparr>,
      \<lparr> tx_buf = None, rx_buf = Some Rx_buffer, len = APPLESPI_PACKET_SIZE,
        cs_change = False, speed_hz = 400000 \<rparr>]"

text \<open>The message built by \<open>applespi_sync_read\<close>: the single transfer \<open>t\<close>.\<close>

definition read_message :: "spi_transfer list" where
  "read_message =
     [\<lparr> tx_buf = None, rx_buf = Some Rx_buffer, len = APPLESPI_PACKET_SIZE,
        cs_change = False, speed_hz = 400000 \<rparr>]"

text \<open>
  \<^verbatim>\<open>spi_sync\<close> belongs to the SPI core; what the driver relies on is written out: the
  transfers of one message run in order, a transfer with a transmit buffer shifts out
  its first \<open>len\<close> bytes, and a transfer with a receive buffer stores the \<open>len\<close> bytes
  coming from the device at the start of that buffer. \<open>miso k\<close> are the bytes the
  device sends during transfer number \<open>k\<close> of the message. The result lists what was
  shifted out, transfer by transfer.
\<close>

fun spi_sync ::
  "nat \<Rightarrow> spi_transfer list \<Rightarrow> (nat \<Rightarrow> u8 list) \<Rightarrow> 'mt applespi_data
     \<Rightarrow> u8 list list \<times> 'mt applespi_data" where
  "spi_sync k [] miso applespi = ([], applespi)"
| "spi_sync k (t # ts) miso applespi =
     (let sent = (case tx_buf t of None \<Rightarrow> [] | Some b \<Rightarrow> [take (len t) (tx_buffer applespi)]);
          applespi' = (case rx_buf t of
                         None \<Rightarrow> applespi
                       | Some b \<Rightarrow> applespi\<lparr>rx_buffer :=
                                    take (len t) (miso k) @ drop (len t) (rx_buffer applespi)\<rparr>);
          (sent', applespi'') = spi_sync (Suc k) ts miso applespi'
      in (sent @ sent', applespi''))"

definition applespi_sync_write_and_response ::
  "(nat \<Rightarrow> u8 list) \<Rightarrow> 'mt applespi_data \<Rightarrow> u8 list list \<times> 'mt applespi_data" where
  "applespi_sync_write_and_response miso applespi =
     spi_sync 0 write_and_response_message miso applespi"

definition applespi_sync_read ::
  "(nat \<Rightarrow> u8 list) \<Rightarrow> 'mt applespi_data \<Rightarrow> u8 list list \<times> 'mt applespi_data" where
  "applespi_sync_read miso applespi = spi_sync 0 read_message miso applespi"

text \<open>\<open>applespi_poll\<close>: one read from the bus, then the dispatch on what arrived.\<close>

definition applespi_poll ::
  "'mt assign_slots \<Rightarrow> (nat \<Rightarrow> u8 list) \<Rightarrow> 'mt applespi_data
     \<Rightarrow> error + (event list \<times> 'mt applespi_data)" where
  "applespi_poll input_mt_assign_slots miso applespi =
     applespi_got_data input_mt_assign_slots (snd (applespi_sync_read miso applespi))"

text \<open>
  The polled-device framework calls \<open>applespi_poll\<close> again and again; \<open>poll_frames\<close>
  runs it once for each frame of a list, the device answering poll number \<open>i\<close> with
  frame number \<open>i\<close>, and collects the reports. It stops at the first error.
\<close>

fun poll_frames ::
  "'mt assign_slots \<Rightarrow> u8 list list \<Rightarrow> 'mt applespi_data
     \<Rightarrow> error + (event list \<times> 'mt applespi_data)" where
  "poll_frames input_mt_assign_slots [] applespi = Inr ([], applespi)"
| "poll_frames input_mt_assign_slots (frame # frames) applespi =
     (case applespi_poll input_mt_assign_slots (\<lambda>k. frame) applespi of
        Inl e \<Rightarrow> Inl e
      | Inr (evs, applespi') \<Rightarrow>
          (case poll_frames input_mt_assign_slots frames applespi' of
             Inl e \<Rightarrow> Inl e
           | Inr (evs', applespi'') \<Rightarrow> Inr (evs @ evs', applespi'')))"

text \<open>
  The state \<open>applespi_probe\<close> leaves behind: the structure is zero-allocated, the two
  buffers are allocated without being cleared, so their first contents are arbitrary.
\<close>

definition applespi_probe_data :: "u8 list \<Rightarrow> u8 list \<Rightarrow> 'mt \<Rightarrow> 'mt applespi_data" where
  "applespi_probe_data tx rx mt =
     \<lparr> tx_buffer = tx, rx_buffer = rx,
       last_keys_pressed = replicate MAX_ROLLOVER 0,
       pos = replicate MAX_FINGERS (0, 0),
       slots = replicate MAX_FINGERS 0,
       touchpad_mt = mt \<rparr>"

section \<open>Hand-made frames\<close>

text \<open>
  A keyboard frame with the given modifier byte and six key codes, every other byte 0,
  and a touchpad frame with the given click byte and the given bytes for the finger
  area, every other byte 0.
\<close>

definition keyboard_frame :: "u8 \<Rightarrow> u8 list \<Rightarrow> u8 list" where
  "keyboard_frame mods keys =
     [0x20, 0x01] @ replicate 15 0 @ [mods, 0] @ keys @ replicate (237 - length keys) 0"

definition touchpad_frame :: "u8 \<Rightarrow> u8 list \<Rightarrow> u8 list" where
  "touchpad_frame click finger_bytes =
     [0x20, 0x02] @ replicate 15 0 @ [click] @ replicate 46 0
       @ finger_bytes @ replicate (192 - length finger_bytes) 0"

text \<open>The 30 bytes of one finger with the given field values, low byte first.\<close>

definition le16_bytes :: "nat \<Rightarrow> u8 list" where
  "le16_bytes v = [word_of_nat (v mod 256), word_of_nat (v div 256)]"

definition finger_bytes_of :: "nat \<Rightarrow> nat \<Rightarrow> nat \<Rightarrow> nat \<Rightarrow> nat \<Rightarrow> nat \<Rightarrow> nat \<Rightarrow> nat \<Rightarrow> u8 list" where
  "finger_bytes_of ax ay tool_maj tool_min orient touch_maj touch_min press =
     le16_bytes 0 @ le16_bytes ax @ le16_bytes ay @ le16_bytes 0 @ le16_bytes 0
       @ le16_bytes tool_maj @ le16_bytes tool_min @ le16_bytes orient
       @ le16_bytes touch_maj @ le16_bytes touch_min @ le16_bytes 0 @ le16_bytes 0
       @ le16_bytes press @ le16_bytes 0 @ le16_bytes 0"

text \<open>
  One decoded finger with every field 0, a frame carrying the tag of an empty answer, and a
  touchpad frame with two touching fingers in slots 0 and 1 and four zeroed slots.
\<close>

definition zero_finger :: tp_finger where
  "zero_finger = \<lparr> origin = 0, abs_x = 0, abs_y = 0, rel_x = 0, rel_y = 0, tool_major = 0,
     tool_minor = 0, orientation = 0, touch_major = 0, touch_minor = 0, pressure = 0, multi = 0 \<rparr>"

definition nothing_frame :: "u8 list" where
  "nothing_frame = [0x40, 0xD0] @ replicate 254 0"

definition two_finger_frame :: "u8 list" where
  "two_finger_frame =
     touchpad_frame 1 (finger_bytes_of 100 200 300 310 1000 400 410 50
                       @ finger_bytes_of 1500 2500 320 330 2000 420 430 60)"

text \<open>
  A stand-in for the slot assignment of the input layer, used to run the driver on
  concrete frames: position \<open>i\<close> gets slot \<open>i\<close>. With it, the state right after
  \<open>applespi_probe\<close>, both buffers zeroed.
\<close>

definition assign_in_order :: "unit assign_slots" where
  "assign_in_order mt ps = (\<lambda>i. int i, mt)"

definition idle_data :: "unit applespi_data" where
  "idle_data = applespi_probe_data (replicate 256 0) (replicate 256 0) ()"

section \<open>Notions of the specification\<close>

text \<open>
  A sample is active when its touch-area major axis is not 0. Its position is the one the
  first loop of \<open>report_tp_state\<close> stores: \<open>x\<close> as it is, \<open>y\<close> mirrored inside
  \<open>Y_MIN..Y_MAX\<close>, both cut to 16 bits.
\<close>

definition finger_active :: "tp_finger \<Rightarrow> bool" where
  "finger_active f \<longleftrightarrow> touch_major f \<noteq> 0"

definition finger_pos :: "tp_finger \<Rightarrow> input_mt_pos" where
  "finger_pos f =
     (word_of_int (raw2int (abs_x f)), word_of_int (Y_MIN + Y_MAX - raw2int (abs_y f)))"

text \<open>A contact update starts with the call that selects its slot.\<close>

fun is_mt_slot :: "event \<Rightarrow> bool" where
  "is_mt_slot (Input_mt_slot d s) = True"
| "is_mt_slot e = False"


section \<open>The keyboard reports in closed form\<close>

lemma length_applespi_scancodes: "length applespi_scancodes = 83"
  by (simp add: applespi_scancodes_def)

lemma still_pressed_iff: "still_pressed k keys \<longleftrightarrow> k \<in> set keys"
  by (induction keys) auto

lemma scancode_in_range:
  "unat c < length applespi_scancodes \<Longrightarrow> scancode c = Inr (applespi_scancodes ! unat c)"
  by (simp add: scancode_def)

lemma scancode_out_of_range:
  "\<not> unat c < length applespi_scancodes \<Longrightarrow> scancode c = Inl Scancode_out_of_bounds"
  by (simp add: scancode_def)

lemma report_released_in_range:
  "\<forall>c\<in>set prev. c \<notin> set keys \<longrightarrow> unat c < length applespi_scancodes \<Longrightarrow>
   report_released prev keys =
     Inr (map (\<lambda>c. Input_report_key Keyboard_input (applespi_scancodes ! unat c) 0)
            (filter (\<lambda>c. c \<notin> set keys) prev))"
  by (induction prev) (simp_all add: still_pressed_iff scancode_in_range)

lemma report_released_out_of_range:
  "\<exists>c\<in>set prev. c \<notin> set keys \<and> \<not> unat c < length applespi_scancodes \<Longrightarrow>
   report_released prev keys = Inl Scancode_out_of_bounds"
proof (induction prev)
  case Nil
  then show ?case by simp
next
  case (Cons k prev)
  show ?case
  proof (cases "still_pressed k keys")
    case True
    with Cons show ?thesis by (auto simp: still_pressed_iff)
  next
    case False
    show ?thesis
    proof (cases "unat k < length applespi_scancodes")
      case True
      with False Cons show ?thesis
        by (auto simp: still_pressed_iff scancode_in_range)
    next
      case False
      with \<open>\<not> still_pressed k keys\<close> show ?thesis
        by (simp add: scancode_out_of_range)
    qed
  qed
qed

lemma report_pressed_eq:
  "report_pressed keys =
     Inr (map (\<lambda>c. Input_report_key Keyboard_input (applespi_scancodes ! unat c) 1)
            (filter (\<lambda>c. unat c < length applespi_scancodes \<and> 0 < c) keys))"
  by (induction keys) (simp_all add: scancode_in_range)

lemma report_modifiers_from_eq:
  "report_modifiers_from i n m =
     map (\<lambda>j. Input_report_key Keyboard_input (applespi_controlcodes ! j) (if bit m j then 1 else 0))
       [i..<i + n]"
proof (induction n arbitrary: i)
  case 0
  show ?case by simp
next
  case (Suc n)
  have "[i..<i + Suc n] = i # [Suc i..<Suc i + n]"
    by (simp add: upt_conv_Cons)
  then show ?case
    by (simp add: Suc.IH)
qed

lemma report_modifiers_eq:
  "report_modifiers m =
     map (\<lambda>j. Input_report_key Keyboard_input (applespi_controlcodes ! j) (if bit m j then 1 else 0))
       [0..<8]"
  by (simp add: report_modifiers_def report_modifiers_from_eq)

lemma keyboard_frame_decode:
  "length keys = 6 \<Longrightarrow>
   keyboard_protocol_of (keyboard_frame mods keys) =
     \<lparr> packet_type = PACKET_KEYBOARD, counter = 0, modifiers = mods, keys_pressed = keys,
       fn_pressed = 0, crc_16 = 0 \<rparr>"
  apply (simp add: keyboard_protocol_of_def keyboard_frame_def le16_at_def le16_to_cpu_def PACKET_KEYBOARD_def nth_append)
  apply (rule nth_equalityI)
  apply (simp_all add: nth_append)
  done

section \<open>The dispatch on the frame tag\<close>

lemma packet_tags_distinct:
  "PACKET_KEYBOARD \<noteq> PACKET_NOTHING" "PACKET_TOUCHPAD \<noteq> PACKET_NOTHING"
  "PACKET_KEYBOARD \<noteq> PACKET_TOUCHPAD" "PACKET_TOUCHPAD \<noteq> PACKET_KEYBOARD"
  by (simp_all add: PACKET_KEYBOARD_def PACKET_NOTHING_def PACKET_TOUCHPAD_def)

lemma applespi_got_data_keyboard:
  assumes "packet_type (keyboard_protocol_of (rx_buffer st)) = PACKET_KEYBOARD"
  shows "applespi_got_data a st =
     (case report_released (last_keys_pressed st)
             (keys_pressed (keyboard_protocol_of (rx_buffer st))) of
        Inl e \<Rightarrow> Inl e
      | Inr released \<Rightarrow>
          Inr (released
               @ map (\<lambda>c. Input_report_key Keyboard_input (applespi_scancodes ! unat c) 1)
                   (filter (\<lambda>c. unat c < length applespi_scancodes \<and> 0 < c)
                      (keys_pressed (keyboard_protocol_of (rx_buffer st))))
               @ report_modifiers (modifiers (keyboard_protocol_of (rx_buffer st)))
               @ [Input_sync Keyboard_input],
               st\<lparr>last_keys_pressed := keys_pressed (keyboard_protocol_of (rx_buffer st))\<rparr>))"
  using assms
  by (simp add: applespi_got_data_def Let_def packet_tags_distinct report_pressed_eq
      split: sum.splits)

lemma applespi_got_data_other:
  assumes "packet_type (keyboard_protocol_of (rx_buffer st)) \<noteq> PACKET_KEYBOARD"
      and "packet_type (keyboard_protocol_of (rx_buffer st)) \<noteq> PACKET_TOUCHPAD"
  shows "applespi_got_data a st = Inr ([], st)"
  using assms by (simp add: applespi_got_data_def Let_def)

lemma applespi_got_data_touchpad:
  assumes "packet_type (keyboard_protocol_of (rx_buffer st)) = PACKET_TOUCHPAD"
  shows "applespi_got_data a st = Inr (report_tp_state a st (touchpad_protocol_of (rx_buffer st)))"
  using assms by (simp add: applespi_got_data_def Let_def packet_tags_distinct)

lemma applespi_sync_read_eq:
  "applespi_sync_read miso st =
     ([], st\<lparr>rx_buffer := take APPLESPI_PACKET_SIZE (miso 0)
                             @ drop APPLESPI_PACKET_SIZE (rx_buffer st)\<rparr>)"
  by (simp add: applespi_sync_read_def read_message_def)

lemma keyboard_protocol_of_append:
  "28 \<le> length f \<Longrightarrow> keyboard_protocol_of (f @ r) = keyboard_protocol_of f"
  by (auto simp: keyboard_protocol_of_def le16_at_def nth_append)

lemma length_keyboard_frame:
  "length keys = 6 \<Longrightarrow> length (keyboard_frame mods keys) = 256"
  by (simp add: keyboard_frame_def)

lemma poll_keyboard_frame_decode:
  "length keys = 6 \<Longrightarrow>
   keyboard_protocol_of (rx_buffer (snd (applespi_sync_read (\<lambda>k. keyboard_frame mods keys) st))) =
     \<lparr> packet_type = PACKET_KEYBOARD, counter = 0, modifiers = mods, keys_pressed = keys,
       fn_pressed = 0, crc_16 = 0 \<rparr>"
  by (simp add: applespi_sync_read_eq APPLESPI_PACKET_SIZE_def length_keyboard_frame
      keyboard_protocol_of_append keyboard_frame_decode)

lemma applespi_poll_keyboard_frame:
  assumes "length keys = 6"
  shows "applespi_poll a (\<lambda>k. keyboard_frame mods keys) st =
     (case report_released (last_keys_pressed st) keys of
        Inl e \<Rightarrow> Inl e
      | Inr released \<Rightarrow>
          Inr (released
               @ map (\<lambda>c. Input_report_key Keyboard_input (applespi_scancodes ! unat c) 1)
                   (filter (\<lambda>c. unat c < length applespi_scancodes \<and> 0 < c) keys)
               @ report_modifiers mods
               @ [Input_sync Keyboard_input],
               st\<lparr>rx_buffer := keyboard_frame mods keys @ drop APPLESPI_PACKET_SIZE (rx_buffer st),
                  last_keys_pressed := keys\<rparr>))"
proof -
  let ?st = "snd (applespi_sync_read (\<lambda>k. keyboard_frame mods keys) st)"
  have d: "keyboard_protocol_of (rx_buffer ?st) =
     \<lparr> packet_type = PACKET_KEYBOARD, counter = 0, modifiers = mods, keys_pressed = keys,
       fn_pressed = 0, crc_16 = 0 \<rparr>"
    using assms by (rule poll_keyboard_frame_decode)
  have k: "packet_type (keyboard_protocol_of (rx_buffer ?st)) = PACKET_KEYBOARD"
    by (simp add: d)
  have l: "last_keys_pressed ?st = last_keys_pressed st"
    by (simp add: applespi_sync_read_eq)
  have s: "?st = st\<lparr>rx_buffer := keyboard_frame mods keys @ drop APPLESPI_PACKET_SIZE (rx_buffer st)\<rparr>"
    using assms by (simp add: applespi_sync_read_eq APPLESPI_PACKET_SIZE_def length_keyboard_frame)
  show ?thesis
    unfolding applespi_poll_def applespi_got_data_keyboard [OF k] d l
    by (simp add: s split: sum.splits)
qed

section \<open>The touchpad path in closed form\<close>

lemma raw2int_eq_0: "raw2int x = 0 \<longleftrightarrow> x = 0"
  by (simp add: raw2int_def signed_eq_0_iff)

lemma tp_positions_eq:
  "n + length (filter finger_active fs) \<le> length ps \<Longrightarrow>
   tp_positions fs ps n =
     (take n ps @ map finger_pos (filter finger_active fs)
        @ drop (n + length (filter finger_active fs)) ps,
      n + length (filter finger_active fs))"
proof (induction fs arbitrary: ps n)
  case Nil
  then show ?case by simp
next
  case (Cons f fs)
  show ?case
  proof (cases "finger_active f")
    case False
    with Cons show ?thesis
      by (simp add: finger_active_def raw2int_eq_0)
  next
    case True
    let ?k = "length (filter finger_active fs)"
    let ?ps = "ps[n := finger_pos f]"
    from True Cons.prems have n: "n < length ps" and le: "Suc n + ?k \<le> length ?ps"
      by simp_all
    have t: "take (Suc n) ?ps = take n ps @ [finger_pos f]"
      using n by (simp add: take_Suc_conv_app_nth)
    have d: "drop (Suc n + ?k) ?ps = drop (Suc n + ?k) ps"
      by simp
    have "tp_positions (f # fs) ps n = tp_positions fs ?ps (Suc n)"
      using True by (simp add: finger_active_def raw2int_eq_0 finger_pos_def)
    also have "\<dots> = (take (Suc n) ?ps @ map finger_pos (filter finger_active fs)
                        @ drop (Suc n + ?k) ?ps, Suc n + ?k)"
      using le by (rule Cons.IH)
    finally show ?thesis
      using True by (simp add: t d)
  qed
qed

lemma length_filter_fingers:
  "length (filter finger_active fs) \<le> length fs"
  by simp

lemma report_loop_cong:
  "length ps = k \<Longrightarrow>
   map (\<lambda>i. report_finger_data ((map f [0..<k] @ r) ! i) ((ps @ q) ! i) (fs ! i)) [0..<k]
     = map (\<lambda>i. report_finger_data (f i) (ps ! i) (fs ! i)) [0..<k]"
  by (rule map_cong) (simp_all add: nth_append)

lemma report_tp_state_eq:
  assumes "length (fingers t) \<le> length (pos st)"
  shows "report_tp_state a st t =
     (let ps = map finger_pos (filter finger_active (fingers t));
          n = length ps;
          (slot_of, mt') = a (touchpad_mt st) ps
      in (concat (map (\<lambda>i. report_finger_data (slot_of i) (ps ! i) (fingers t ! i)) [0..<n])
          @ [Input_mt_sync_frame Touchpad_input,
             Input_report_key Touchpad_input BTN_LEFT (uint (clicked t)),
             Input_sync Touchpad_input],
          st\<lparr>pos := ps @ drop n (pos st),
             slots := map slot_of [0..<n] @ drop n (slots st),
             touchpad_mt := mt'\<rparr>))"
proof -
  let ?ps = "map finger_pos (filter finger_active (fingers t))"
  let ?n = "length ?ps"
  have le: "0 + length (filter finger_active (fingers t)) \<le> length (pos st)"
    using assms length_filter_fingers [of "fingers t"] by linarith
  have tp: "tp_positions (fingers t) (pos st) 0 = (?ps @ drop ?n (pos st), ?n)"
    using tp_positions_eq [OF le] by simp
  show ?thesis
    unfolding report_tp_state_def tp
    by (simp add: Let_def report_loop_cong split: prod.splits)
qed

section \<open>Evaluating hand-made frames\<close>

lemma upt_6: "[0..<6] = [0, 1, 2, 3, 4, 5 :: nat]"
  by (simp add: upt_rec)

lemma upt_8: "[0..<8] = [0, 1, 2, 3, 4, 5, 6, 7 :: nat]"
  by (simp add: upt_rec)

lemma touchpad_frame_tag: "packet_type (keyboard_protocol_of (touchpad_frame c fb)) = PACKET_TOUCHPAD"
  by (simp add: keyboard_protocol_of_def touchpad_frame_def le16_at_def le16_to_cpu_def PACKET_TOUCHPAD_def)

lemma scancodes_4_5: "applespi_scancodes ! 4 = KEY_A" "applespi_scancodes ! 5 = KEY_B"
  by (simp_all add: applespi_scancodes_def)

lemma report_modifiers_0:
  "report_modifiers 0 =
     [Input_report_key Keyboard_input KEY_LEFTCTRL 0,
      Input_report_key Keyboard_input KEY_LEFTSHIFT 0,
      Input_report_key Keyboard_input KEY_LEFTALT 0,
      Input_report_key Keyboard_input KEY_LEFTMETA 0,
      Input_report_key Keyboard_input 0 0,
      Input_report_key Keyboard_input KEY_RIGHTSHIFT 0,
      Input_report_key Keyboard_input KEY_RIGHTALT 0,
      Input_report_key Keyboard_input KEY_RIGHTMETA 0]"
  by (simp add: report_modifiers_eq upt_8 applespi_controlcodes_def)

lemma report_modifiers_2:
  "report_modifiers 2 =
     [Input_report_key Keyboard_input KEY_LEFTCTRL 0,
      Input_report_key Keyboard_input KEY_LEFTSHIFT 1,
      Input_report_key Keyboard_input KEY_LEFTALT 0,
      Input_report_key Keyboard_input KEY_LEFTMETA 0,
      Input_report_key Keyboard_input 0 0,
      Input_report_key Keyboard_input KEY_RIGHTSHIFT 0,
      Input_report_key Keyboard_input KEY_RIGHTALT 0,
      Input_report_key Keyboard_input KEY_RIGHTMETA 0]"
  by (simp add: report_modifiers_eq upt_8 applespi_controlcodes_def)

lemma scancodes_6_9:
  "applespi_scancodes ! 6 = KEY_C" "applespi_scancodes ! 7 = KEY_D"
  "applespi_scancodes ! 8 = KEY_E" "applespi_scancodes ! 9 = KEY_F"
  by (simp_all add: applespi_scancodes_def)

lemma replicate_6: "replicate 6 x = [x, x, x, x, x, x]"
  by (simp add: eval_nat_numeral)

lemma report_tp_state_last_keys:
  "last_keys_pressed (snd (report_tp_state a st t)) = last_keys_pressed st"
  by (simp add: report_tp_state_def Let_def split: prod.splits)

lemma length_fingers_decoded: "length (fingers (touchpad_protocol_of buf)) = MAX_FINGERS"
  by (simp add: touchpad_protocol_of_def)

lemma clicked_decoded: "clicked (touchpad_protocol_of buf) = buf ! 17"
  by (simp add: touchpad_protocol_of_def)

lemma touchpad_protocol_of_append:
  "244 \<le> length f \<Longrightarrow> touchpad_protocol_of (f @ r) = touchpad_protocol_of f"
  by (auto simp: touchpad_protocol_of_def tp_finger_at_def le16_at_def nth_append
      MAX_FINGERS_def upt_6)

lemma length_touchpad_frame:
  "length fb \<le> 192 \<Longrightarrow> length (touchpad_frame c fb) = 256"
  by (simp add: touchpad_frame_def)

lemma applespi_poll_touchpad_frame:
  assumes "length fb \<le> 192"
  shows "applespi_poll a (\<lambda>k. touchpad_frame c fb) st =
     Inr (report_tp_state a
            (st\<lparr>rx_buffer := touchpad_frame c fb @ drop APPLESPI_PACKET_SIZE (rx_buffer st)\<rparr>)
            (touchpad_protocol_of (touchpad_frame c fb)))"
proof -
  let ?st = "st\<lparr>rx_buffer := touchpad_frame c fb @ drop APPLESPI_PACKET_SIZE (rx_buffer st)\<rparr>"
  have s: "snd (applespi_sync_read (\<lambda>k. touchpad_frame c fb) st) = ?st"
    using assms by (simp add: applespi_sync_read_eq APPLESPI_PACKET_SIZE_def length_touchpad_frame)
  have k: "packet_type (keyboard_protocol_of (rx_buffer ?st)) = PACKET_TOUCHPAD"
    using assms by (simp add: keyboard_protocol_of_append length_touchpad_frame touchpad_frame_tag)
  have t: "touchpad_protocol_of (rx_buffer ?st) = touchpad_protocol_of (touchpad_frame c fb)"
    using assms by (simp add: touchpad_protocol_of_append length_touchpad_frame)
  show ?thesis
    unfolding applespi_poll_def s applespi_got_data_touchpad [OF k] t ..
qed

lemma length_filter_concat_one:
  "(\<And>x. x \<in> set xs \<Longrightarrow> length (filter P (g x)) = 1) \<Longrightarrow>
   length (filter P (concat (map g xs))) = length xs"
  by (induction xs) simp_all

lemma mt_slots_of_report_finger_data:
  "length (filter is_mt_slot (report_finger_data s p f)) = 1"
  by (simp add: report_finger_data_def)

lemma two_finger_frame_decode:
  "touchpad_protocol_of two_finger_frame =
    \<lparr> number_of_fingers = 0, clicked = 1,
      fingers = [\<lparr> origin = 0, abs_x = 100, abs_y = 200, rel_x = 0, rel_y = 0, tool_major = 300,
           tool_minor = 310, orientation = 1000, touch_major = 400, touch_minor = 410,
           pressure = 50, multi = 0 \<rparr>,
         \<lparr> origin = 0, abs_x = 1500, abs_y = 2500, rel_x = 0, rel_y = 0, tool_major = 320,
           tool_minor = 330, orientation = 2000, touch_major = 420, touch_minor = 430,
           pressure = 60, multi = 0 \<rparr>,
         zero_finger, zero_finger, zero_finger, zero_finger] \<rparr>"
  by (simp add: two_finger_frame_def touchpad_protocol_of_def touchpad_frame_def
      finger_bytes_of_def le16_bytes_def tp_finger_at_def le16_at_def le16_to_cpu_def
      MAX_FINGERS_def zero_finger_def nth_append upt_6)

lemma zero_finger_inactive: "\<not> finger_active zero_finger"
  by (simp add: finger_active_def zero_finger_def)

lemma applespi_sync_write_and_response_eq:
  "applespi_sync_write_and_response miso st =
     ([take APPLESPI_PACKET_SIZE (tx_buffer st)],
      st\<lparr>rx_buffer := take APPLESPI_PACKET_SIZE (miso 2)
                @ drop APPLESPI_PACKET_SIZE (take 4 (miso 1) @ drop 4 (rx_buffer st))\<rparr>)"
  by (simp add: applespi_sync_write_and_response_def write_and_response_message_def
      numeral_2_eq_2)

text \<open>
  When the touching fingers fill the leading slots of the frame, slot \<open>i\<close> of the frame
  is also active sample number \<open>i\<close>, and every contact update is made of one sample.
\<close>

lemma contact_updates_leading:
  assumes "length (fingers t) \<le> length (pos st)"
    and "filter finger_active (fingers t) = take n (fingers t)"
    and "n \<le> length (fingers t)"
  shows "fst (report_tp_state a st t) =
     concat (map (\<lambda>i. report_finger_data
                         (fst (a (touchpad_mt st) (map finger_pos (take n (fingers t)))) i)
                         (finger_pos (fingers t ! i)) (fingers t ! i)) [0..<n])
     @ [Input_mt_sync_frame Touchpad_input,
        Input_report_key Touchpad_input BTN_LEFT (uint (clicked t)),
        Input_sync Touchpad_input]"
proof -
  let ?ps = "map finger_pos (take n (fingers t))"
  have len: "length ?ps = n"
    using assms(3) by simp
  have m: "min (length (fingers t)) n = n"
    using assms(3) by simp
  have c: "map (\<lambda>i. report_finger_data (f i) (?ps ! i) (fingers t ! i)) [0..<n]
      = map (\<lambda>i. report_finger_data (f i) (finger_pos (fingers t ! i)) (fingers t ! i)) [0..<n]"
    for f
    by (rule map_cong) (use assms(3) in simp_all)
  show ?thesis
    unfolding report_tp_state_eq [OF assms(1)] assms(2)
    by (simp add: Let_def m c split: prod.splits)
qed

section \<open>The claims\<close>

subsection \<open>Keyboard rollover tracker\<close>

text \<open>
  Claim C1, as stated, against the driver. The claim: a key press is reported exactly
  for a nonzero code of the new snapshot that appears nowhere in the previous one, a code
  held in two slots is reported at most once, and a snapshot equal to the previous one
  reports nothing. The driver, fed the keyboard frame with codes \<open>{4,0,0,0,0,0}\<close> twice
  from its start state, reports the press of \<open>KEY_A\<close> both times (and all eight
  modifiers both times); and the press loop on \<open>{4,4,0,0,0,0}\<close> reports \<open>KEY_A\<close> twice.
\<close>

theorem press_policy_counterexample:
  "poll_frames assign_in_order
     [keyboard_frame 0 [4, 0, 0, 0, 0, 0], keyboard_frame 0 [4, 0, 0, 0, 0, 0]] idle_data
   = Inr ([Input_report_key Keyboard_input KEY_A 1,
           Input_report_key Keyboard_input KEY_LEFTCTRL 0,
           Input_report_key Keyboard_input KEY_LEFTSHIFT 0,
           Input_report_key Keyboard_input KEY_LEFTALT 0,
           Input_report_key Keyboard_input KEY_LEFTMETA 0,
           Input_report_key Keyboard_input 0 0,
           Input_report_key Keyboard_input KEY_RIGHTSHIFT 0,
           Input_report_key Keyboard_input KEY_RIGHTALT 0,
           Input_report_key Keyboard_input KEY_RIGHTMETA 0,
           Input_sync Keyboard_input,
           Input_report_key Keyboard_input KEY_A 1,
           Input_report_key Keyboard_input KEY_LEFTCTRL 0,
           Input_report_key Keyboard_input KEY_LEFTSHIFT 0,
           Input_report_key Keyboard_input KEY_LEFTALT 0,
           Input_report_key Keyboard_input KEY_LEFTMETA 0,
           Input_report_key Keyboard_input 0 0,
           Input_report_key Keyboard_input KEY_RIGHTSHIFT 0,
           Input_report_key Keyboard_input KEY_RIGHTALT 0,
           Input_report_key Keyboard_input KEY_RIGHTMETA 0,
           Input_sync Keyboard_input],
          idle_data\<lparr>rx_buffer := keyboard_frame 0 [4, 0, 0, 0, 0, 0],
                    last_keys_pressed := [4, 0, 0, 0, 0, 0]\<rparr>)
   \<and> report_pressed [4, 4, 0, 0, 0, 0]
       = Inr [Input_report_key Keyboard_input KEY_A 1, Input_report_key Keyboard_input KEY_A 1]"
  by (simp add: applespi_poll_keyboard_frame idle_data_def applespi_probe_data_def
      MAX_ROLLOVER_def APPLESPI_PACKET_SIZE_def report_released_in_range report_pressed_eq
      length_applespi_scancodes scancodes_4_5 report_modifiers_0 length_keyboard_frame)

text \<open>
  Claim C1, amended to what the press loop does. For every new snapshot, one key press is
  reported for each slot, in slot order, whose code is nonzero and below the size of the
  key table, whether or not the code was in the previous snapshot (the loop does not
  read it); a zero slot, and a slot whose code is beyond the table, reports nothing; a
  code held in several slots is reported once per slot. The table read of this loop never
  leaves the table: the result is never an error.
\<close>

theorem press_policy:
  "report_pressed keys =
     Inr (map (\<lambda>c. Input_report_key Keyboard_input (applespi_scancodes ! unat c) 1)
            (filter (\<lambda>c. c \<noteq> 0 \<and> unat c < length applespi_scancodes) keys))"
proof -
  have "(\<lambda>c::u8. unat c < length applespi_scancodes \<and> 0 < c)
          = (\<lambda>c. c \<noteq> 0 \<and> unat c < length applespi_scancodes)"
    by (auto simp: word_greater_zero_iff)
  then show ?thesis
    by (simp add: report_pressed_eq)
qed

text \<open>
  The release loop inside \<open>applespi_got_data\<close>, for a keyboard frame in which every
  code it releases is an index of the key table: a key release is reported for each slot
  of the previous array whose code is nowhere among the six new codes, in the order of
  the previous array, each for the table entry of its code; after them come the key
  presses (every one with value 1), then the modifiers and the sync; and the new codes
  replace the previous ones. A slot of the previous array holding 0 is treated like any
  other code.
\<close>

lemma release_reports_in_range:
  assumes "packet_type (keyboard_protocol_of (rx_buffer st)) = PACKET_KEYBOARD"
    and "\<forall>c\<in>set (last_keys_pressed st).
           c \<notin> set (keys_pressed (keyboard_protocol_of (rx_buffer st)))
             \<longrightarrow> unat c < length applespi_scancodes"
  shows "\<exists>pressed.
           report_pressed (keys_pressed (keyboard_protocol_of (rx_buffer st))) = Inr pressed
         \<and> (\<forall>e\<in>set pressed. \<exists>code. e = Input_report_key Keyboard_input code 1)
         \<and> applespi_got_data a st =
             Inr (map (\<lambda>c. Input_report_key Keyboard_input (applespi_scancodes ! unat c) 0)
                    (filter (\<lambda>c. c \<notin> set (keys_pressed (keyboard_protocol_of (rx_buffer st))))
                       (last_keys_pressed st))
                  @ pressed
                  @ report_modifiers (modifiers (keyboard_protocol_of (rx_buffer st)))
                  @ [Input_sync Keyboard_input],
                  st\<lparr>last_keys_pressed := keys_pressed (keyboard_protocol_of (rx_buffer st))\<rparr>)"
proof -
  let ?keys = "keys_pressed (keyboard_protocol_of (rx_buffer st))"
  let ?pressed = "map (\<lambda>c. Input_report_key Keyboard_input (applespi_scancodes ! unat c) 1)
                    (filter (\<lambda>c. unat c < length applespi_scancodes \<and> 0 < c) ?keys)"
  have p: "report_pressed ?keys = Inr ?pressed"
    by (rule report_pressed_eq)
  have v: "\<forall>e\<in>set ?pressed. \<exists>code. e = Input_report_key Keyboard_input code 1"
    by auto
  have g: "applespi_got_data a st =
             Inr (map (\<lambda>c. Input_report_key Keyboard_input (applespi_scancodes ! unat c) 0)
                    (filter (\<lambda>c. c \<notin> set ?keys) (last_keys_pressed st))
                  @ ?pressed
                  @ report_modifiers (modifiers (keyboard_protocol_of (rx_buffer st)))
                  @ [Input_sync Keyboard_input],
                  st\<lparr>last_keys_pressed := ?keys\<rparr>)"
    by (simp add: applespi_got_data_keyboard [OF assms(1)] report_released_in_range [OF assms(2)])
  from p v g show ?thesis
    by blast
qed

text \<open>
  Two runs with nonzero codes inside the table. Previous codes \<open>{4,5,0,0,0,0}\<close> and
  an all-zero frame: exactly the two releases of \<open>KEY_A\<close> and \<open>KEY_B\<close> and no press.
  A full frame \<open>{4,5,6,7,8,9}\<close> followed by an all-zero frame: exactly six releases,
  in the order of the previous array, and no press.
\<close>

lemma release_reports_named_runs:
  "packet_type (keyboard_protocol_of (keyboard_frame 0 [0, 0, 0, 0, 0, 0])) = PACKET_KEYBOARD
   \<and> list_all (\<lambda>c. unat c < length applespi_scancodes) [4, 5, 0, 0, 0, 0 :: u8]
   \<and> applespi_got_data assign_in_order
        (idle_data\<lparr>rx_buffer := keyboard_frame 0 [0, 0, 0, 0, 0, 0],
                   last_keys_pressed := [4, 5, 0, 0, 0, 0]\<rparr>)
      = Inr ([Input_report_key Keyboard_input KEY_A 0,
              Input_report_key Keyboard_input KEY_B 0]
             @ report_modifiers 0 @ [Input_sync Keyboard_input],
             idle_data\<lparr>rx_buffer := keyboard_frame 0 [0, 0, 0, 0, 0, 0],
                       last_keys_pressed := [0, 0, 0, 0, 0, 0]\<rparr>)
   \<and> list_all (\<lambda>c. unat c < length applespi_scancodes) [4, 5, 6, 7, 8, 9 :: u8]
   \<and> applespi_got_data assign_in_order
        (idle_data\<lparr>rx_buffer := keyboard_frame 0 [0, 0, 0, 0, 0, 0],
                   last_keys_pressed := [4, 5, 6, 7, 8, 9]\<rparr>)
      = Inr ([Input_report_key Keyboard_input KEY_A 0,
              Input_report_key Keyboard_input KEY_B 0,
              Input_report_key Keyboard_input KEY_C 0,
              Input_report_key Keyboard_input KEY_D 0,
              Input_report_key Keyboard_input KEY_E 0,
              Input_report_key Keyboard_input KEY_F 0]
             @ report_modifiers 0 @ [Input_sync Keyboard_input],
             idle_data\<lparr>rx_buffer := keyboard_frame 0 [0, 0, 0, 0, 0, 0],
                       last_keys_pressed := [0, 0, 0, 0, 0, 0]\<rparr>)"
  using release_reports_in_range
          [of "idle_data\<lparr>rx_buffer := keyboard_frame 0 [0, 0, 0, 0, 0, 0],
                         last_keys_pressed := [4, 5, 0, 0, 0, 0]\<rparr>" assign_in_order]
        release_reports_in_range
          [of "idle_data\<lparr>rx_buffer := keyboard_frame 0 [0, 0, 0, 0, 0, 0],
                         last_keys_pressed := [4, 5, 6, 7, 8, 9]\<rparr>" assign_in_order]
  by (simp add: keyboard_frame_decode length_applespi_scancodes report_pressed_eq
      scancodes_4_5 scancodes_6_9)

text \<open>
  Claim C2 against the driver. The claim: for every new snapshot processed against the
  previous state, a key release is reported for exactly the codes reported before that
  are nowhere among the six new codes. The release loop reads the key table for every
  slot of the previous array that it does not find in the new frame, without the check
  \<^verbatim>\<open>< sizeof(applespi_scancodes) && > 0\<close> that the press loop makes. So an empty
  slot is released too: from the state after probing, where no key was ever reported, the
  frame with the six codes \<open>{4,5,6,7,8,9}\<close> reports six releases of table entry 0
  before its six presses, where the claim has no release at all. And a previous code
  beyond the table is read past its end: after the frame \<open>{200,0,0,0,0,0}\<close> the frame
  \<open>{4,0,0,0,0,0}\<close> ends in the out-of-bounds read, where the claim has one release.
\<close>

theorem release_reports_for_empty_slots:
  "map_sum id fst
     (applespi_poll a (\<lambda>k. keyboard_frame 0 [4, 5, 6, 7, 8, 9]) (applespi_probe_data tx rx mt))
   = Inr [Input_report_key Keyboard_input 0 0,
          Input_report_key Keyboard_input 0 0,
          Input_report_key Keyboard_input 0 0,
          Input_report_key Keyboard_input 0 0,
          Input_report_key Keyboard_input 0 0,
          Input_report_key Keyboard_input 0 0,
          Input_report_key Keyboard_input KEY_A 1,
          Input_report_key Keyboard_input KEY_B 1,
          Input_report_key Keyboard_input KEY_C 1,
          Input_report_key Keyboard_input KEY_D 1,
          Input_report_key Keyboard_input KEY_E 1,
          Input_report_key Keyboard_input KEY_F 1,
          Input_report_key Keyboard_input KEY_LEFTCTRL 0,
          Input_report_key Keyboard_input KEY_LEFTSHIFT 0,
          Input_report_key Keyboard_input KEY_LEFTALT 0,
          Input_report_key Keyboard_input KEY_LEFTMETA 0,
          Input_report_key Keyboard_input 0 0,
          Input_report_key Keyboard_input KEY_RIGHTSHIFT 0,
          Input_report_key Keyboard_input KEY_RIGHTALT 0,
          Input_report_key Keyboard_input KEY_RIGHTMETA 0,
          Input_sync Keyboard_input]
   \<and> poll_frames a [keyboard_frame 0 [200, 0, 0, 0, 0, 0], keyboard_frame 0 [4, 0, 0, 0, 0, 0]]
         (applespi_probe_data tx rx mt) = Inl Scancode_out_of_bounds"
proof -
  let ?s0 = "applespi_probe_data tx rx mt :: 'a applespi_data"
  let ?s1 = "?s0\<lparr>rx_buffer := keyboard_frame 0 [200, 0, 0, 0, 0, 0]
                               @ drop APPLESPI_PACKET_SIZE (rx_buffer ?s0),
                 last_keys_pressed := [200, 0, 0, 0, 0, 0]\<rparr>"
  have e0: "applespi_scancodes ! 0 = 0"
    by (simp add: applespi_scancodes_def)
  have "\<forall>c\<in>set (last_keys_pressed ?s0). c \<notin> set [4, 5, 6, 7, 8, 9]
          \<longrightarrow> unat c < length applespi_scancodes"
    by (simp add: applespi_probe_data_def length_applespi_scancodes)
  then have r0: "report_released (last_keys_pressed ?s0) [4, 5, 6, 7, 8, 9] =
      Inr [Input_report_key Keyboard_input 0 0, Input_report_key Keyboard_input 0 0,
           Input_report_key Keyboard_input 0 0, Input_report_key Keyboard_input 0 0,
           Input_report_key Keyboard_input 0 0, Input_report_key Keyboard_input 0 0]"
    by (simp add: report_released_in_range)
       (simp add: applespi_probe_data_def MAX_ROLLOVER_def replicate_6 e0)
  have full: "map_sum id fst (applespi_poll a (\<lambda>k. keyboard_frame 0 [4, 5, 6, 7, 8, 9]) ?s0)
      = Inr ([Input_report_key Keyboard_input 0 0, Input_report_key Keyboard_input 0 0,
              Input_report_key Keyboard_input 0 0, Input_report_key Keyboard_input 0 0,
              Input_report_key Keyboard_input 0 0, Input_report_key Keyboard_input 0 0]
             @ [Input_report_key Keyboard_input KEY_A 1, Input_report_key Keyboard_input KEY_B 1,
                Input_report_key Keyboard_input KEY_C 1, Input_report_key Keyboard_input KEY_D 1,
                Input_report_key Keyboard_input KEY_E 1, Input_report_key Keyboard_input KEY_F 1]
             @ report_modifiers 0 @ [Input_sync Keyboard_input])"
    by (simp add: applespi_poll_keyboard_frame r0 length_applespi_scancodes
        scancodes_4_5 scancodes_6_9)
  have r1: "report_released (last_keys_pressed ?s0) [200, 0, 0, 0, 0, 0] = Inr []"
    by (simp add: applespi_probe_data_def MAX_ROLLOVER_def report_released_in_range)
  have p1: "\<exists>evs. applespi_poll a (\<lambda>k. keyboard_frame 0 [200, 0, 0, 0, 0, 0]) ?s0 = Inr (evs, ?s1)"
    by (simp add: applespi_poll_keyboard_frame r1)
  have "\<exists>c\<in>set [200, 0, 0, 0, 0, 0 :: u8].
          c \<notin> set [4, 0, 0, 0, 0, 0] \<and> \<not> unat c < length applespi_scancodes"
    by (simp add: length_applespi_scancodes)
  then have r2: "report_released (last_keys_pressed ?s1) [4, 0, 0, 0, 0, 0]
                   = Inl Scancode_out_of_bounds"
    using report_released_out_of_range [of "[200, 0, 0, 0, 0, 0]" "[4, 0, 0, 0, 0, 0]"]
    by simp
  have p2: "applespi_poll a (\<lambda>k. keyboard_frame 0 [4, 0, 0, 0, 0, 0]) ?s1
              = Inl Scancode_out_of_bounds"
    by (simp only: applespi_poll_keyboard_frame [of "[4, 0, 0, 0, 0, 0]", simplified] r2 sum.case)
  from p1 obtain evs where
    "applespi_poll a (\<lambda>k. keyboard_frame 0 [200, 0, 0, 0, 0, 0]) ?s0 = Inr (evs, ?s1)" ..
  with p2 have bad: "poll_frames a
      [keyboard_frame 0 [200, 0, 0, 0, 0, 0], keyboard_frame 0 [4, 0, 0, 0, 0, 0]] ?s0
        = Inl Scancode_out_of_bounds"
    by simp
  from full bad show ?thesis
    by (simp add: report_modifiers_0)
qed

text \<open>
  Claim C4 against the driver. The claim: for every sequence of keyboard frames, every
  read of the key table stays inside it, in the press loop and in the release loop. The
  press loop checks its index, and its closed form above has no error case. The
  release loop does not: after a frame whose first code is 200, which reports no press
  and is stored as the previous array, the next frame without that code makes the driver
  read \<open>applespi_scancodes[200]\<close> in a table of 83 entries. This holds from the state
  after probing, whatever the buffers held and whatever the input layer does.
\<close>

theorem scancode_read_out_of_bounds:
  "poll_frames a [keyboard_frame 0 [200, 0, 0, 0, 0, 0], keyboard_frame 0 [0, 0, 0, 0, 0, 0]]
     (applespi_probe_data tx rx mt) = Inl Scancode_out_of_bounds"
proof -
  let ?s0 = "applespi_probe_data tx rx mt :: 'a applespi_data"
  let ?s1 = "?s0\<lparr>rx_buffer := keyboard_frame 0 [200, 0, 0, 0, 0, 0]
                               @ drop APPLESPI_PACKET_SIZE (rx_buffer ?s0),
                 last_keys_pressed := [200, 0, 0, 0, 0, 0]\<rparr>"
  have r1: "report_released (last_keys_pressed ?s0) [200, 0, 0, 0, 0, 0] = Inr []"
    by (simp add: applespi_probe_data_def MAX_ROLLOVER_def report_released_in_range)
  have p1: "\<exists>evs. applespi_poll a (\<lambda>k. keyboard_frame 0 [200, 0, 0, 0, 0, 0]) ?s0 = Inr (evs, ?s1)"
    by (simp add: applespi_poll_keyboard_frame r1)
  have "\<exists>c\<in>set [200, 0, 0, 0, 0, 0 :: u8].
          c \<notin> set [0, 0, 0, 0, 0, 0] \<and> \<not> unat c < length applespi_scancodes"
    by (simp add: length_applespi_scancodes)
  then have r2: "report_released (last_keys_pressed ?s1) [0, 0, 0, 0, 0, 0]
                   = Inl Scancode_out_of_bounds"
    using report_released_out_of_range [of "[200, 0, 0, 0, 0, 0]" "[0, 0, 0, 0, 0, 0]"]
    by simp
  have p2: "applespi_poll a (\<lambda>k. keyboard_frame 0 [0, 0, 0, 0, 0, 0]) ?s1
              = Inl Scancode_out_of_bounds"
    by (simp only: applespi_poll_keyboard_frame [of "[0, 0, 0, 0, 0, 0]", simplified] r2 sum.case)
  from p1 obtain evs where
    "applespi_poll a (\<lambda>k. keyboard_frame 0 [200, 0, 0, 0, 0, 0]) ?s0 = Inr (evs, ?s1)" ..
  with p2 show ?thesis
    by simp
qed

text \<open>
  Claim C5, as stated, against the driver. The claim: a modifier press is reported
  exactly when the bit is set now and was not set before, a release exactly when it was
  set and is now clear, and nothing for an unchanged bit. The driver, fed the keyboard
  frame with modifier byte 2 (left shift) twice from its start state, reports all eight
  modifiers both times, the press of \<open>KEY_LEFTSHIFT\<close> included.
\<close>

theorem modifier_policy_counterexample:
  "poll_frames assign_in_order
     [keyboard_frame 2 [0, 0, 0, 0, 0, 0], keyboard_frame 2 [0, 0, 0, 0, 0, 0]] idle_data
   = Inr ([Input_report_key Keyboard_input KEY_LEFTCTRL 0,
           Input_report_key Keyboard_input KEY_LEFTSHIFT 1,
           Input_report_key Keyboard_input KEY_LEFTALT 0,
           Input_report_key Keyboard_input KEY_LEFTMETA 0,
           Input_report_key Keyboard_input 0 0,
           Input_report_key Keyboard_input KEY_RIGHTSHIFT 0,
           Input_report_key Keyboard_input KEY_RIGHTALT 0,
           Input_report_key Keyboard_input KEY_RIGHTMETA 0,
           Input_sync Keyboard_input,
           Input_report_key Keyboard_input KEY_LEFTCTRL 0,
           Input_report_key Keyboard_input KEY_LEFTSHIFT 1,
           Input_report_key Keyboard_input KEY_LEFTALT 0,
           Input_report_key Keyboard_input KEY_LEFTMETA 0,
           Input_report_key Keyboard_input 0 0,
           Input_report_key Keyboard_input KEY_RIGHTSHIFT 0,
           Input_report_key Keyboard_input KEY_RIGHTALT 0,
           Input_report_key Keyboard_input KEY_RIGHTMETA 0,
           Input_sync Keyboard_input],
          idle_data\<lparr>rx_buffer := keyboard_frame 2 [0, 0, 0, 0, 0, 0]\<rparr>)"
  by (simp add: applespi_poll_keyboard_frame idle_data_def applespi_probe_data_def
      MAX_ROLLOVER_def APPLESPI_PACKET_SIZE_def report_released_in_range
      report_modifiers_2 length_keyboard_frame replicate_6)

text \<open>
  Claim C5, amended to what the driver does. The modifier loop reports each of the eight
  modifier bits once, in bit order, with value 1 when the bit is set in the new snapshot
  and 0 when it is clear; it reads nothing of the previous state, so an unchanged bit is
  reported again, and no modifier mask is kept anywhere. In every keyboard frame whose
  release loop stays inside the key table (every previous code that is not in the new
  frame is an index of the table) these eight reports come after the key releases and the
  key presses and before the sync, and afterwards the state holds the six codes of the
  new snapshot, with nothing else changed. A keyboard frame whose release loop leaves the
  table ends there, in the out-of-bounds read of claim C4; nothing is said about what
  follows that read.
\<close>

theorem modifier_policy:
  "report_modifiers m =
     map (\<lambda>i. Input_report_key Keyboard_input (applespi_controlcodes ! i)
                 (if bit m i then 1 else 0)) [0..<8]
   \<and> (packet_type (keyboard_protocol_of (rx_buffer st)) = PACKET_KEYBOARD \<longrightarrow>
        applespi_got_data a st =
          (if \<forall>c\<in>set (last_keys_pressed st).
                 c \<notin> set (keys_pressed (keyboard_protocol_of (rx_buffer st)))
                   \<longrightarrow> unat c < length applespi_scancodes
           then Inr (map (\<lambda>c. Input_report_key Keyboard_input (applespi_scancodes ! unat c) 0)
                       (filter (\<lambda>c. c \<notin> set (keys_pressed (keyboard_protocol_of (rx_buffer st))))
                          (last_keys_pressed st))
                     @ map (\<lambda>c. Input_report_key Keyboard_input (applespi_scancodes ! unat c) 1)
                         (filter (\<lambda>c. unat c < length applespi_scancodes \<and> 0 < c)
                            (keys_pressed (keyboard_protocol_of (rx_buffer st))))
                     @ map (\<lambda>i. Input_report_key Keyboard_input (applespi_controlcodes ! i)
                                   (if bit (modifiers (keyboard_protocol_of (rx_buffer st))) i
                                    then 1 else 0))
                         [0..<8]
                     @ [Input_sync Keyboard_input],
                     st\<lparr>last_keys_pressed :=
                          keys_pressed (keyboard_protocol_of (rx_buffer st))\<rparr>)
           else Inl Scancode_out_of_bounds))"
proof (intro conjI impI)
  show "report_modifiers m =
     map (\<lambda>i. Input_report_key Keyboard_input (applespi_controlcodes ! i)
                 (if bit m i then 1 else 0)) [0..<8]"
    by (rule report_modifiers_eq)
next
  let ?kp = "keyboard_protocol_of (rx_buffer st)"
  assume tag: "packet_type ?kp = PACKET_KEYBOARD"
  show "applespi_got_data a st =
          (if \<forall>c\<in>set (last_keys_pressed st).
                 c \<notin> set (keys_pressed ?kp) \<longrightarrow> unat c < length applespi_scancodes
           then Inr (map (\<lambda>c. Input_report_key Keyboard_input (applespi_scancodes ! unat c) 0)
                       (filter (\<lambda>c. c \<notin> set (keys_pressed ?kp)) (last_keys_pressed st))
                     @ map (\<lambda>c. Input_report_key Keyboard_input (applespi_scancodes ! unat c) 1)
                         (filter (\<lambda>c. unat c < length applespi_scancodes \<and> 0 < c)
                            (keys_pressed ?kp))
                     @ map (\<lambda>i. Input_report_key Keyboard_input (applespi_controlcodes ! i)
                                   (if bit (modifiers ?kp) i then 1 else 0))
                         [0..<8]
                     @ [Input_sync Keyboard_input],
                     st\<lparr>last_keys_pressed := keys_pressed ?kp\<rparr>)
           else Inl Scancode_out_of_bounds)"
  proof (cases "\<forall>c\<in>set (last_keys_pressed st).
                 c \<notin> set (keys_pressed ?kp) \<longrightarrow> unat c < length applespi_scancodes")
    case True
    then show ?thesis
      by (simp add: applespi_got_data_keyboard [OF tag] report_released_in_range
          report_modifiers_eq)
  next
    case False
    then have "\<exists>c\<in>set (last_keys_pressed st).
                 c \<notin> set (keys_pressed ?kp) \<and> \<not> unat c < length applespi_scancodes"
      by blast
    then have "report_released (last_keys_pressed st) (keys_pressed ?kp)
                 = Inl Scancode_out_of_bounds"
      by (rule report_released_out_of_range)
    with False show ?thesis
      by (simp add: applespi_got_data_keyboard [OF tag])
  qed
qed

text \<open>
  The amended claim C5 at a concrete frame: left shift held, key code 5 let go and key
  code 4 pressed.
\<close>

theorem modifier_policy_witness:
  "report_modifiers 2 =
     [Input_report_key Keyboard_input KEY_LEFTCTRL 0,
      Input_report_key Keyboard_input KEY_LEFTSHIFT 1,
      Input_report_key Keyboard_input KEY_LEFTALT 0,
      Input_report_key Keyboard_input KEY_LEFTMETA 0,
      Input_report_key Keyboard_input 0 0,
      Input_report_key Keyboard_input KEY_RIGHTSHIFT 0,
      Input_report_key Keyboard_input KEY_RIGHTALT 0,
      Input_report_key Keyboard_input KEY_RIGHTMETA 0]
   \<and> packet_type (keyboard_protocol_of (keyboard_frame 2 [4, 0, 0, 0, 0, 0])) = PACKET_KEYBOARD
   \<and> list_all (\<lambda>c. unat c < length applespi_scancodes) [5, 0, 0, 0, 0, 0 :: u8]
   \<and> applespi_got_data assign_in_order
        (idle_data\<lparr>rx_buffer := keyboard_frame 2 [4, 0, 0, 0, 0, 0],
                   last_keys_pressed := [5, 0, 0, 0, 0, 0]\<rparr>)
      = Inr ([Input_report_key Keyboard_input KEY_B 0,
              Input_report_key Keyboard_input KEY_A 1,
              Input_report_key Keyboard_input KEY_LEFTCTRL 0,
              Input_report_key Keyboard_input KEY_LEFTSHIFT 1,
              Input_report_key Keyboard_input KEY_LEFTALT 0,
              Input_report_key Keyboard_input KEY_LEFTMETA 0,
              Input_report_key Keyboard_input 0 0,
              Input_report_key Keyboard_input KEY_RIGHTSHIFT 0,
              Input_report_key Keyboard_input KEY_RIGHTALT 0,
              Input_report_key Keyboard_input KEY_RIGHTMETA 0,
              Input_sync Keyboard_input],
             idle_data\<lparr>rx_buffer := keyboard_frame 2 [4, 0, 0, 0, 0, 0],
                       last_keys_pressed := [4, 0, 0, 0, 0, 0]\<rparr>)"
  using modifier_policy [of 2 "idle_data\<lparr>rx_buffer := keyboard_frame 2 [4, 0, 0, 0, 0, 0],
                                          last_keys_pressed := [5, 0, 0, 0, 0, 0]\<rparr>"
                            assign_in_order]
  by (simp add: keyboard_frame_decode upt_8 applespi_controlcodes_def
      length_applespi_scancodes scancodes_4_5)

subsection \<open>Frame dispatch\<close>

text \<open>
  Claim C9. A frame whose tag is not the keyboard tag is processed without error and
  leaves the stored previous key codes as they were, so only keyboard frames change
  them; and a frame whose tag is neither the keyboard nor the touchpad tag (the tag of an
  empty answer, 53312, or any unknown tag) reports nothing and changes nothing.
\<close>

theorem frame_kind_isolation:
  assumes "packet_type (keyboard_protocol_of (rx_buffer st)) \<noteq> PACKET_KEYBOARD"
  shows "\<exists>evs st'.
           applespi_got_data a st = Inr (evs, st')
         \<and> last_keys_pressed st' = last_keys_pressed st
         \<and> (packet_type (keyboard_protocol_of (rx_buffer st)) \<noteq> PACKET_TOUCHPAD
              \<longrightarrow> evs = [] \<and> st' = st)"
proof (cases "packet_type (keyboard_protocol_of (rx_buffer st)) = PACKET_TOUCHPAD")
  case True
  obtain evs st' where r: "report_tp_state a st (touchpad_protocol_of (rx_buffer st)) = (evs, st')"
    by (cases "report_tp_state a st (touchpad_protocol_of (rx_buffer st))")
  have "last_keys_pressed st' = last_keys_pressed st"
    using report_tp_state_last_keys [of a st "touchpad_protocol_of (rx_buffer st)"] r by simp
  with True r show ?thesis
    by (simp add: applespi_got_data_touchpad)
next
  case False
  with assms show ?thesis
    by (simp add: applespi_got_data_other)
qed

text \<open>
  Claim C9 at a frame with the tag of an empty answer, with two keys held.
\<close>

theorem frame_kind_isolation_witness:
  "packet_type (keyboard_protocol_of (rx_buffer (idle_data\<lparr>rx_buffer := nothing_frame,
        last_keys_pressed := [4, 5, 0, 0, 0, 0]\<rparr>))) \<noteq> PACKET_KEYBOARD
   \<and> applespi_got_data assign_in_order
        (idle_data\<lparr>rx_buffer := nothing_frame, last_keys_pressed := [4, 5, 0, 0, 0, 0]\<rparr>)
      = Inr ([], idle_data\<lparr>rx_buffer := nothing_frame, last_keys_pressed := [4, 5, 0, 0, 0, 0]\<rparr>)"
  using frame_kind_isolation [of "idle_data\<lparr>rx_buffer := nothing_frame,
        last_keys_pressed := [4, 5, 0, 0, 0, 0]\<rparr>" assign_in_order]
  by (simp add: nothing_frame_def keyboard_protocol_of_def le16_at_def le16_to_cpu_def
      PACKET_KEYBOARD_def PACKET_TOUCHPAD_def)

text \<open>
  Claim C10. What processing one frame reports, and the tracker state it leaves (the
  previous key codes, and the contact tracking state of the input layer), is a function
  of the receive buffer, the previous key codes and that tracking state: two states that
  agree on these three give the same reports, or the same error, and agree on them again
  afterwards, however the transmit buffer and the scratch arrays \<open>pos\<close> and \<open>slots\<close>
  differ. Both states have arrays of the declared sizes.
\<close>

theorem frame_processing_deterministic:
  assumes ok1: "applespi_data_ok s1" and ok2: "applespi_data_ok s2"
    and rx: "rx_buffer s1 = rx_buffer s2"
    and keys: "last_keys_pressed s1 = last_keys_pressed s2"
    and mt: "touchpad_mt s1 = touchpad_mt s2"
  shows "map_sum id (\<lambda>(evs, s). (evs, last_keys_pressed s, touchpad_mt s)) (applespi_got_data a s1)
       = map_sum id (\<lambda>(evs, s). (evs, last_keys_pressed s, touchpad_mt s)) (applespi_got_data a s2)"
proof -
  let ?tag = "packet_type (keyboard_protocol_of (rx_buffer s1))"
  consider (kbd) "?tag = PACKET_KEYBOARD" | (tp) "?tag = PACKET_TOUCHPAD"
    | (other) "?tag \<noteq> PACKET_KEYBOARD" "?tag \<noteq> PACKET_TOUCHPAD"
    by blast
  then show ?thesis
  proof cases
    case kbd
    then have k2: "packet_type (keyboard_protocol_of (rx_buffer s2)) = PACKET_KEYBOARD"
      by (simp add: rx)
    show ?thesis
      unfolding applespi_got_data_keyboard [OF kbd] applespi_got_data_keyboard [OF k2]
      by (simp add: rx keys mt split: sum.splits)
  next
    case tp
    then have t2: "packet_type (keyboard_protocol_of (rx_buffer s2)) = PACKET_TOUCHPAD"
      by (simp add: rx)
    have l1: "length (fingers (touchpad_protocol_of (rx_buffer s1))) \<le> length (pos s1)"
      using ok1 by (simp add: length_fingers_decoded applespi_data_ok_def)
    have l2: "length (fingers (touchpad_protocol_of (rx_buffer s2))) \<le> length (pos s2)"
      using ok2 by (simp add: length_fingers_decoded applespi_data_ok_def)
    show ?thesis
      unfolding applespi_got_data_touchpad [OF tp] applespi_got_data_touchpad [OF t2]
        report_tp_state_eq [OF l1] report_tp_state_eq [OF l2]
      by (simp add: rx keys mt Let_def split: prod.splits)
  next
    case other
    then have o2: "packet_type (keyboard_protocol_of (rx_buffer s2)) \<noteq> PACKET_KEYBOARD"
        "packet_type (keyboard_protocol_of (rx_buffer s2)) \<noteq> PACKET_TOUCHPAD"
      by (simp_all add: rx)
    show ?thesis
      unfolding applespi_got_data_other [OF other] applespi_got_data_other [OF o2]
      by (simp add: keys mt)
  qed
qed

text \<open>
  Claim C10 at a touchpad frame, for two states that differ in the transmit buffer and
  in both scratch arrays.
\<close>

theorem frame_processing_deterministic_witness:
  "applespi_data_ok (idle_data\<lparr>rx_buffer := two_finger_frame\<rparr>)
   \<and> applespi_data_ok (idle_data\<lparr>tx_buffer := replicate 256 1, rx_buffer := two_finger_frame,
        pos := replicate 6 (7, 7), slots := replicate 6 3\<rparr>)
   \<and> map_sum id (\<lambda>(evs, s). (evs, last_keys_pressed s, touchpad_mt s))
        (applespi_got_data assign_in_order (idle_data\<lparr>rx_buffer := two_finger_frame\<rparr>))
     = map_sum id (\<lambda>(evs, s). (evs, last_keys_pressed s, touchpad_mt s))
        (applespi_got_data assign_in_order
           (idle_data\<lparr>tx_buffer := replicate 256 1, rx_buffer := two_finger_frame,
              pos := replicate 6 (7, 7), slots := replicate 6 3\<rparr>))"
proof -
  have l2: "length two_finger_frame = 256"
    by (simp add: two_finger_frame_def touchpad_frame_def finger_bytes_of_def le16_bytes_def)
  have ok1: "applespi_data_ok (idle_data\<lparr>rx_buffer := two_finger_frame\<rparr>)"
    by (simp add: applespi_data_ok_def idle_data_def applespi_probe_data_def
        APPLESPI_PACKET_SIZE_def MAX_ROLLOVER_def MAX_FINGERS_def l2)
  have ok2: "applespi_data_ok (idle_data\<lparr>tx_buffer := replicate 256 1,
        rx_buffer := two_finger_frame, pos := replicate 6 (7, 7), slots := replicate 6 3\<rparr>)"
    by (simp add: applespi_data_ok_def idle_data_def applespi_probe_data_def
        APPLESPI_PACKET_SIZE_def MAX_ROLLOVER_def MAX_FINGERS_def l2)
  from frame_processing_deterministic [OF ok1 ok2, of assign_in_order] ok1 ok2
  show ?thesis
    by simp
qed

subsection \<open>Touchpad frames\<close>

text \<open>
  Two runs from the state after probing, whatever the input layer assigns. In the first
  frame slot 0 is zeroed and slot 1 holds a touching finger at (100, 200) with touch axes
  400 and 410, tool axes 300 and 310 and orientation 1000: the one contact update has
  that finger's position, (100, 6600 - 200), with the axes and the orientation of the
  zeroed slot 0. In the second frame the same finger is in slot 0, with any pressure
  \<open>pr\<close>: the update is made of that finger's own values, and \<open>pr\<close> is not in it.
\<close>

lemma contact_update_mixes_samples:
  "map_sum id fst
     (applespi_poll a
        (\<lambda>k. touchpad_frame 1 (replicate 30 0 @ finger_bytes_of 100 200 300 310 1000 400 410 50))
        (applespi_probe_data tx rx mt))
   = Inr [Input_mt_slot Touchpad_input (fst (a mt [(100, 6400)]) 0),
          Input_mt_report_slot_state Touchpad_input MT_TOOL_FINGER True,
          Input_report_abs Touchpad_input ABS_MT_TOUCH_MAJOR 0,
          Input_report_abs Touchpad_input ABS_MT_TOUCH_MINOR 0,
          Input_report_abs Touchpad_input ABS_MT_WIDTH_MAJOR 0,
          Input_report_abs Touchpad_input ABS_MT_WIDTH_MINOR 0,
          Input_report_abs Touchpad_input ABS_MT_ORIENTATION 16384,
          Input_report_abs Touchpad_input ABS_MT_POSITION_X 100,
          Input_report_abs Touchpad_input ABS_MT_POSITION_Y 6400,
          Input_mt_sync_frame Touchpad_input,
          Input_report_key Touchpad_input BTN_LEFT 1,
          Input_sync Touchpad_input]"
proof -
  let ?fb = "replicate 30 0 @ finger_bytes_of 100 200 300 310 1000 400 410 50"
  let ?f1 = "\<lparr> origin = 0, abs_x = 100, abs_y = 200, rel_x = 0, rel_y = 0, tool_major = 300,
           tool_minor = 310, orientation = 1000, touch_major = 400, touch_minor = 410,
           pressure = 50, multi = 0 \<rparr>"
  have len: "length ?fb \<le> 192"
    by (simp add: finger_bytes_of_def le16_bytes_def)
  have dec: "touchpad_protocol_of (touchpad_frame 1 ?fb) =
    \<lparr> number_of_fingers = 0, clicked = 1,
      fingers = [zero_finger, ?f1, zero_finger, zero_finger, zero_finger, zero_finger] \<rparr>"
    by (simp add: touchpad_protocol_of_def touchpad_frame_def finger_bytes_of_def le16_bytes_def
      tp_finger_at_def le16_at_def le16_to_cpu_def MAX_FINGERS_def zero_finger_def nth_append upt_6)
  have z: "touch_major zero_finger = 0" "touch_minor zero_finger = 0"
      "tool_major zero_finger = 0" "tool_minor zero_finger = 0" "orientation zero_finger = 0"
    by (simp_all add: zero_finger_def)
  have act: "filter finger_active [zero_finger, ?f1, zero_finger, zero_finger, zero_finger, zero_finger]
               = [?f1]"
    by (simp add: finger_active_def z)
  have pos1: "finger_pos ?f1 = (100, 6400)"
    by (simp add: finger_pos_def raw2int_def Y_MIN_def Y_MAX_def)
  show ?thesis
    unfolding applespi_poll_touchpad_frame [OF len] dec
    by (subst report_tp_state_eq)
       (simp_all add: applespi_probe_data_def MAX_FINGERS_def act pos1 report_finger_data_def
          z raw2int_def MAX_FINGER_ORIENTATION_def Let_def finger_active_def
          split: prod.splits)
qed

lemma poll_one_leading_finger:
  "map_sum id fst
     (applespi_poll a
        (\<lambda>k. touchpad_frame 1 (finger_bytes_of 100 200 300 310 1000 400 410 pr))
        (applespi_probe_data tx rx mt))
   = Inr [Input_mt_slot Touchpad_input (fst (a mt [(100, 6400)]) 0),
          Input_mt_report_slot_state Touchpad_input MT_TOOL_FINGER True,
          Input_report_abs Touchpad_input ABS_MT_TOUCH_MAJOR 800,
          Input_report_abs Touchpad_input ABS_MT_TOUCH_MINOR 820,
          Input_report_abs Touchpad_input ABS_MT_WIDTH_MAJOR 600,
          Input_report_abs Touchpad_input ABS_MT_WIDTH_MINOR 620,
          Input_report_abs Touchpad_input ABS_MT_ORIENTATION 15384,
          Input_report_abs Touchpad_input ABS_MT_POSITION_X 100,
          Input_report_abs Touchpad_input ABS_MT_POSITION_Y 6400,
          Input_mt_sync_frame Touchpad_input,
          Input_report_key Touchpad_input BTN_LEFT 1,
          Input_sync Touchpad_input]"
proof -
  let ?fb = "finger_bytes_of 100 200 300 310 1000 400 410 pr"
  let ?f1 = "\<lparr> origin = 0, abs_x = 100, abs_y = 200, rel_x = 0, rel_y = 0, tool_major = 300,
           tool_minor = 310, orientation = 1000, touch_major = 400, touch_minor = 410,
           pressure = le16_to_cpu (word_of_nat (pr mod 256)) (word_of_nat (pr div 256)),
           multi = 0 \<rparr>"
  have len: "length ?fb \<le> 192"
    by (simp add: finger_bytes_of_def le16_bytes_def)
  have dec: "touchpad_protocol_of (touchpad_frame 1 ?fb) =
    \<lparr> number_of_fingers = 0, clicked = 1,
      fingers = [?f1, zero_finger, zero_finger, zero_finger, zero_finger, zero_finger] \<rparr>"
    by (simp add: touchpad_protocol_of_def touchpad_frame_def finger_bytes_of_def le16_bytes_def
      tp_finger_at_def le16_at_def MAX_FINGERS_def zero_finger_def nth_append upt_6)
       (simp add: le16_to_cpu_def)
  have act: "filter finger_active [?f1, zero_finger, zero_finger, zero_finger, zero_finger, zero_finger]
               = [?f1]"
    by (simp add: zero_finger_inactive) (simp add: finger_active_def)
  have pos1: "finger_pos ?f1 = (100, 6400)"
    by (simp add: finger_pos_def raw2int_def Y_MIN_def Y_MAX_def)
  show ?thesis
    unfolding applespi_poll_touchpad_frame [OF len] dec
    by (subst report_tp_state_eq)
       (simp_all add: applespi_probe_data_def MAX_FINGERS_def act pos1 report_finger_data_def
          raw2int_def MAX_FINGER_ORIENTATION_def Let_def zero_finger_inactive
          split: prod.splits, simp_all add: finger_active_def)
qed

text \<open>
  Claim C3, as stated, against the driver. The claim: every contact update carries the
  position, the touch and tool axes, the orientation and the pressure of one and the same
  active sample, for every arrangement of active and inactive slots. With slot 0 zeroed
  and a touching finger in slot 1, the update carries that finger's position with the axes
  and orientation of slot 0 (0, 0, 0, 0 and 16384, where the finger's own values are 800,
  820, 600, 620 and 15384). And two frames that differ only in the pressure of their one
  finger, 50 and 99, are reported alike: no update carries a pressure.
\<close>

theorem contact_update_counterexample:
  "map_sum id fst
     (applespi_poll assign_in_order
        (\<lambda>k. touchpad_frame 1 (replicate 30 0 @ finger_bytes_of 100 200 300 310 1000 400 410 50))
        idle_data)
   = Inr [Input_mt_slot Touchpad_input 0,
          Input_mt_report_slot_state Touchpad_input MT_TOOL_FINGER True,
          Input_report_abs Touchpad_input ABS_MT_TOUCH_MAJOR 0,
          Input_report_abs Touchpad_input ABS_MT_TOUCH_MINOR 0,
          Input_report_abs Touchpad_input ABS_MT_WIDTH_MAJOR 0,
          Input_report_abs Touchpad_input ABS_MT_WIDTH_MINOR 0,
          Input_report_abs Touchpad_input ABS_MT_ORIENTATION 16384,
          Input_report_abs Touchpad_input ABS_MT_POSITION_X 100,
          Input_report_abs Touchpad_input ABS_MT_POSITION_Y 6400,
          Input_mt_sync_frame Touchpad_input,
          Input_report_key Touchpad_input BTN_LEFT 1,
          Input_sync Touchpad_input]
   \<and> map_sum id fst
         (applespi_poll assign_in_order
            (\<lambda>k. touchpad_frame 1 (finger_bytes_of 100 200 300 310 1000 400 410 50)) idle_data)
     = map_sum id fst
         (applespi_poll assign_in_order
            (\<lambda>k. touchpad_frame 1 (finger_bytes_of 100 200 300 310 1000 400 410 99)) idle_data)"
  unfolding idle_data_def
  by (simp only: contact_update_mixes_samples poll_one_leading_finger)
     (simp add: assign_in_order_def)

text \<open>
  Claim C3, amended. The driver reports no pressure: a contact update is the slot, the
  touch axes, the tool axes, the orientation and the position, and changing a sample's
  pressure changes nothing in it. When the active samples fill the leading slots of the
  frame (the first \<open>n\<close> slots are active and no other), contact update \<open>i\<close> carries the
  slot assigned to active sample \<open>i\<close> together with the position, the axes and the
  orientation of that same sample; the frame sync follows the last update, and the click
  byte follows as a single button report, before the final sync. What the driver reports
  when an inactive slot precedes an active one is left open here.
\<close>

theorem contact_update_integrity:
  assumes "length (fingers t) \<le> length (pos st)"
    and "filter finger_active (fingers t) = take n (fingers t)"
    and "n \<le> length (fingers t)"
  shows "fst (report_tp_state a st t) =
           concat (map (\<lambda>i. report_finger_data
                               (fst (a (touchpad_mt st) (map finger_pos (take n (fingers t)))) i)
                               (finger_pos (fingers t ! i)) (fingers t ! i)) [0..<n])
           @ [Input_mt_sync_frame Touchpad_input,
              Input_report_key Touchpad_input BTN_LEFT (uint (clicked t)),
              Input_sync Touchpad_input]
       \<and> report_finger_data s p (f\<lparr>pressure := v\<rparr>) = report_finger_data s p f"
  using contact_updates_leading [OF assms, of a]
  by (simp add: report_finger_data_def)

text \<open>
  The amended claim C3 at the frame with touching fingers in slots 0 and 1: each of the
  two updates is made of one finger's own values.
\<close>

theorem contact_update_integrity_witness:
  "length (fingers (touchpad_protocol_of two_finger_frame)) \<le> length (pos idle_data)
   \<and> filter finger_active (fingers (touchpad_protocol_of two_finger_frame))
       = take 2 (fingers (touchpad_protocol_of two_finger_frame))
   \<and> 2 \<le> length (fingers (touchpad_protocol_of two_finger_frame))
   \<and> fst (report_tp_state assign_in_order idle_data (touchpad_protocol_of two_finger_frame))
       = [Input_mt_slot Touchpad_input 0,
          Input_mt_report_slot_state Touchpad_input MT_TOOL_FINGER True,
          Input_report_abs Touchpad_input ABS_MT_TOUCH_MAJOR 800,
          Input_report_abs Touchpad_input ABS_MT_TOUCH_MINOR 820,
          Input_report_abs Touchpad_input ABS_MT_WIDTH_MAJOR 600,
          Input_report_abs Touchpad_input ABS_MT_WIDTH_MINOR 620,
          Input_report_abs Touchpad_input ABS_MT_ORIENTATION 15384,
          Input_report_abs Touchpad_input ABS_MT_POSITION_X 100,
          Input_report_abs Touchpad_input ABS_MT_POSITION_Y 6400,
          Input_mt_slot Touchpad_input 1,
          Input_mt_report_slot_state Touchpad_input MT_TOOL_FINGER True,
          Input_report_abs Touchpad_input ABS_MT_TOUCH_MAJOR 840,
          Input_report_abs Touchpad_input ABS_MT_TOUCH_MINOR 860,
          Input_report_abs Touchpad_input ABS_MT_WIDTH_MAJOR 640,
          Input_report_abs Touchpad_input ABS_MT_WIDTH_MINOR 660,
          Input_report_abs Touchpad_input ABS_MT_ORIENTATION 14384,
          Input_report_abs Touchpad_input ABS_MT_POSITION_X 1500,
          Input_report_abs Touchpad_input ABS_MT_POSITION_Y 4100,
          Input_mt_sync_frame Touchpad_input,
          Input_report_key Touchpad_input BTN_LEFT 1,
          Input_sync Touchpad_input]"
proof -
  let ?t = "touchpad_protocol_of two_finger_frame"
  have l: "length (fingers ?t) \<le> length (pos idle_data)"
    by (simp add: length_fingers_decoded idle_data_def applespi_probe_data_def)
  have n: "2 \<le> length (fingers ?t)"
    by (simp add: length_fingers_decoded MAX_FINGERS_def)
  have act: "filter finger_active (fingers ?t) = take 2 (fingers ?t)"
    by (simp add: two_finger_frame_decode zero_finger_inactive numeral_2_eq_2)
       (simp add: finger_active_def)
  have two: "[0..<2] = [0, 1 :: nat]"
    by (simp add: upt_rec)
  have ev: "fst (report_tp_state assign_in_order idle_data ?t) =
           concat (map (\<lambda>i. report_finger_data
                               (fst (assign_in_order (touchpad_mt idle_data)
                                       (map finger_pos (take 2 (fingers ?t)))) i)
                               (finger_pos (fingers ?t ! i)) (fingers ?t ! i)) [0..<2])
           @ [Input_mt_sync_frame Touchpad_input,
              Input_report_key Touchpad_input BTN_LEFT (uint (clicked ?t)),
              Input_sync Touchpad_input]"
    using contact_update_integrity [OF l act n, of assign_in_order] by simp
  have "fst (report_tp_state assign_in_order idle_data ?t) = concat
          (map (\<lambda>i. report_finger_data (int i) (finger_pos (fingers ?t ! i)) (fingers ?t ! i))
             [0, 1])
        @ [Input_mt_sync_frame Touchpad_input,
           Input_report_key Touchpad_input BTN_LEFT (uint (clicked ?t)),
           Input_sync Touchpad_input]"
    unfolding ev two by (simp add: assign_in_order_def)
  then have "fst (report_tp_state assign_in_order idle_data ?t) = [Input_mt_slot Touchpad_input 0,
          Input_mt_report_slot_state Touchpad_input MT_TOOL_FINGER True,
          Input_report_abs Touchpad_input ABS_MT_TOUCH_MAJOR 800,
          Input_report_abs Touchpad_input ABS_MT_TOUCH_MINOR 820,
          Input_report_abs Touchpad_input ABS_MT_WIDTH_MAJOR 600,
          Input_report_abs Touchpad_input ABS_MT_WIDTH_MINOR 620,
          Input_report_abs Touchpad_input ABS_MT_ORIENTATION 15384,
          Input_report_abs Touchpad_input ABS_MT_POSITION_X 100,
          Input_report_abs Touchpad_input ABS_MT_POSITION_Y 6400,
          Input_mt_slot Touchpad_input 1,
          Input_mt_report_slot_state Touchpad_input MT_TOOL_FINGER True,
          Input_report_abs Touchpad_input ABS_MT_TOUCH_MAJOR 840,
          Input_report_abs Touchpad_input ABS_MT_TOUCH_MINOR 860,
          Input_report_abs Touchpad_input ABS_MT_WIDTH_MAJOR 640,
          Input_report_abs Touchpad_input ABS_MT_WIDTH_MINOR 660,
          Input_report_abs Touchpad_input ABS_MT_ORIENTATION 14384,
          Input_report_abs Touchpad_input ABS_MT_POSITION_X 1500,
          Input_report_abs Touchpad_input ABS_MT_POSITION_Y 4100,
          Input_mt_sync_frame Touchpad_input,
          Input_report_key Touchpad_input BTN_LEFT 1,
          Input_sync Touchpad_input]"
    by (simp add: two_finger_frame_decode report_finger_data_def finger_pos_def raw2int_def
        Y_MIN_def Y_MAX_def MAX_FINGER_ORIENTATION_def)
  with l act n show ?thesis
    by blast
qed

text \<open>
  Claim C7. A sample is active exactly when its touch-area major axis is not 0. For a
  touchpad frame, the positions handed to the slot assignment are those of the active
  samples and no others, in frame order; they fill the first entries of \<open>pos\<close>, the
  slots assigned to them fill the first entries of \<open>slots\<close>, and there are as many
  contact updates as active samples. The button report after the frame sync carries the
  click byte of the frame (byte 17).
\<close>

theorem active_sample_filtering:
  assumes "packet_type (keyboard_protocol_of (rx_buffer st)) = PACKET_TOUCHPAD"
    and "length (pos st) = MAX_FINGERS"
  shows "\<exists>updates st'.
           applespi_got_data a st =
             Inr (updates @ [Input_mt_sync_frame Touchpad_input,
                             Input_report_key Touchpad_input BTN_LEFT (uint (rx_buffer st ! 17)),
                             Input_sync Touchpad_input], st')
         \<and> (let act = filter finger_active (fingers (touchpad_protocol_of (rx_buffer st)));
                 tracked = a (touchpad_mt st) (map finger_pos act)
             in take (length act) (pos st') = map finger_pos act
              \<and> take (length act) (slots st') = map (fst tracked) [0..<length act]
              \<and> touchpad_mt st' = snd tracked
              \<and> length (filter is_mt_slot updates) = length act)"
proof -
  let ?t = "touchpad_protocol_of (rx_buffer st)"
  let ?act = "filter finger_active (fingers ?t)"
  let ?ps = "map finger_pos ?act"
  obtain slot_of mt' where tr: "a (touchpad_mt st) ?ps = (slot_of, mt')"
    by (cases "a (touchpad_mt st) ?ps")
  let ?updates = "concat (map (\<lambda>i. report_finger_data (slot_of i) (?ps ! i) (fingers ?t ! i))
                              [0..<length ?act])"
  let ?st' = "st\<lparr>pos := ?ps @ drop (length ?act) (pos st),
                slots := map slot_of [0..<length ?act] @ drop (length ?act) (slots st),
                touchpad_mt := mt'\<rparr>"
  have le: "length (fingers ?t) \<le> length (pos st)"
    using assms(2) by (simp add: length_fingers_decoded)
  have g: "applespi_got_data a st =
             Inr (?updates @ [Input_mt_sync_frame Touchpad_input,
                              Input_report_key Touchpad_input BTN_LEFT (uint (rx_buffer st ! 17)),
                              Input_sync Touchpad_input], ?st')"
    by (simp add: applespi_got_data_touchpad [OF assms(1)] report_tp_state_eq [OF le] tr
        clicked_decoded Let_def)
  have n: "length (filter is_mt_slot ?updates) = length ?act"
    using length_filter_concat_one [of "[0..<length ?act]" is_mt_slot
        "\<lambda>i. report_finger_data (slot_of i) (?ps ! i) (fingers ?t ! i)"]
    by (simp add: mt_slots_of_report_finger_data)
  have "take (length ?act) (pos ?st') = ?ps
      \<and> take (length ?act) (slots ?st') = map (fst (a (touchpad_mt st) ?ps)) [0..<length ?act]
      \<and> touchpad_mt ?st' = snd (a (touchpad_mt st) ?ps)"
    by (simp add: tr)
  with g n show ?thesis
    unfolding Let_def by blast
qed

text \<open>
  Claim C7 at a 256-byte frame with exactly two active samples and four zeroed ones, and
  click byte 1: two tracked entries, two contact updates, button value 1.
\<close>

theorem active_sample_filtering_witness:
  "packet_type (keyboard_protocol_of (rx_buffer (idle_data\<lparr>rx_buffer := two_finger_frame\<rparr>)))
     = PACKET_TOUCHPAD
   \<and> length (pos (idle_data\<lparr>rx_buffer := two_finger_frame\<rparr>)) = MAX_FINGERS
   \<and> length (filter finger_active (fingers (touchpad_protocol_of two_finger_frame))) = 2
   \<and> (\<exists>updates st'.
         applespi_got_data assign_in_order (idle_data\<lparr>rx_buffer := two_finger_frame\<rparr>)
           = Inr (updates @ [Input_mt_sync_frame Touchpad_input,
                             Input_report_key Touchpad_input BTN_LEFT 1,
                             Input_sync Touchpad_input], st')
         \<and> take 2 (pos st') = [(100, 6400), (1500, 4100)]
         \<and> take 2 (slots st') = [0, 1]
         \<and> length (filter is_mt_slot updates) = 2)"
proof -
  let ?s = "idle_data\<lparr>rx_buffer := two_finger_frame\<rparr>"
  let ?f1 = "\<lparr> origin = 0, abs_x = 100, abs_y = 200, rel_x = 0, rel_y = 0, tool_major = 300,
           tool_minor = 310, orientation = 1000, touch_major = 400, touch_minor = 410,
           pressure = 50, multi = 0 \<rparr>"
  let ?f2 = "\<lparr> origin = 0, abs_x = 1500, abs_y = 2500, rel_x = 0, rel_y = 0, tool_major = 320,
           tool_minor = 330, orientation = 2000, touch_major = 420, touch_minor = 430,
           pressure = 60, multi = 0 \<rparr>"
  have tag: "packet_type (keyboard_protocol_of (rx_buffer ?s)) = PACKET_TOUCHPAD"
    by (simp add: two_finger_frame_def touchpad_frame_tag)
  have len: "length (pos ?s) = MAX_FINGERS"
    by (simp add: idle_data_def applespi_probe_data_def)
  have act: "filter finger_active (fingers (touchpad_protocol_of (rx_buffer ?s))) = [?f1, ?f2]"
    by (simp add: two_finger_frame_decode zero_finger_inactive) (simp add: finger_active_def)
  have ps: "map finger_pos [?f1, ?f2] = [(100, 6400), (1500, 4100)]"
    by (simp add: finger_pos_def raw2int_def Y_MIN_def Y_MAX_def)
  have click: "uint (rx_buffer ?s ! 17) = 1"
    by (simp add: two_finger_frame_def touchpad_frame_def nth_append)
  have slots: "map (fst (assign_in_order (touchpad_mt ?s) [(100, 6400), (1500, 4100)])) [0..<2]
                 = [0, 1]"
    by (simp add: assign_in_order_def upt_rec)
  from active_sample_filtering [OF tag len, of assign_in_order]
  obtain updates st' where
    g: "applespi_got_data assign_in_order ?s
          = Inr (updates @ [Input_mt_sync_frame Touchpad_input,
                            Input_report_key Touchpad_input BTN_LEFT (uint (rx_buffer ?s ! 17)),
                            Input_sync Touchpad_input], st')"
    and r: "let act = filter finger_active (fingers (touchpad_protocol_of (rx_buffer ?s)));
                tracked = assign_in_order (touchpad_mt ?s) (map finger_pos act)
            in take (length act) (pos st') = map finger_pos act
             \<and> take (length act) (slots st') = map (fst tracked) [0..<length act]
             \<and> touchpad_mt st' = snd tracked
             \<and> length (filter is_mt_slot updates) = length act"
    by blast
  have n: "length [?f1, ?f2] = 2"
    by simp
  from r have r': "take 2 (pos st') = [(100, 6400), (1500, 4100)]
      \<and> take 2 (slots st') = [0, 1]
      \<and> length (filter is_mt_slot updates) = 2"
    unfolding Let_def act ps n slots by simp
  have a2: "length (filter finger_active (fingers (touchpad_protocol_of two_finger_frame))) = 2"
    using act by simp
  from g r' show ?thesis
    unfolding click using tag len a2 by blast
qed

text \<open>
  Which slot a position gets is decided by \<^verbatim>\<open>input_mt_assign_slots\<close> of the input
  layer, a parameter of this development, so nothing is said here about how contacts are
  matched. What the driver contributes is the number of positions it hands over: never
  more than \<open>MAX_FINGERS\<close>, the number of slots it set up.
\<close>

lemma tracked_positions_bounded:
  "length (map finger_pos (filter finger_active (fingers (touchpad_protocol_of buf))))
     \<le> MAX_FINGERS"
proof -
  have "length (filter finger_active (fingers (touchpad_protocol_of buf)))
          \<le> length (fingers (touchpad_protocol_of buf))"
    by (rule length_filter_le)
  then show ?thesis
    by (simp add: length_fingers_decoded)
qed

subsection \<open>Bus transactions\<close>

text \<open>
  Claim C8, as stated, against the driver. The claim: polling sends a poll buffer and
  then runs the same three transfers as the write-and-response exchange. The message of
  \<open>applespi_sync_read\<close> is one 256-byte receive; it has no transmit and no 4-byte
  receive, and nothing is shifted out.
\<close>

theorem poll_transaction_counterexample:
  "map (\<lambda>t. (tx_buf t, rx_buf t, len t)) read_message = [(None, Some Rx_buffer, 256)]
   \<and> map (\<lambda>t. (tx_buf t, rx_buf t, len t)) write_and_response_message
       = [(Some Tx_buffer, None, 256), (None, Some Rx_buffer, 4), (None, Some Rx_buffer, 256)]
   \<and> fst (applespi_sync_read (\<lambda>k. nothing_frame) idle_data) = []
   \<and> fst (applespi_sync_write_and_response (\<lambda>k. nothing_frame) idle_data) = [replicate 256 0]"
  by (simp add: read_message_def write_and_response_message_def APPLESPI_PACKET_SIZE_def
      applespi_sync_read_def applespi_sync_write_and_response_def idle_data_def
      applespi_probe_data_def)

text \<open>
  Claim C8, amended. The exchange \<open>applespi_sync_write_and_response\<close> is one message of
  three transfers, in this order: transmit the 256 bytes of the transmit buffer, receive
  4 bytes, receive 256 bytes; both receives go to the start of the receive buffer, so
  the 4 bytes are overwritten and the buffer ends up holding the 256 bytes of the third
  transfer. Polling, \<open>applespi_sync_read\<close>, is one message of a single 256-byte
  receive and transmits nothing.
\<close>

theorem transaction_shape:
  assumes "applespi_data_ok st"
    and "length (miso 1) = 4"
    and "length (miso 2) = APPLESPI_PACKET_SIZE"
    and "length (poll_miso 0) = APPLESPI_PACKET_SIZE"
  shows "map (\<lambda>t. (tx_buf t, rx_buf t, len t)) write_and_response_message
           = [(Some Tx_buffer, None, 256), (None, Some Rx_buffer, 4), (None, Some Rx_buffer, 256)]
       \<and> applespi_sync_write_and_response miso st = ([tx_buffer st], st\<lparr>rx_buffer := miso 2\<rparr>)
       \<and> map (\<lambda>t. (tx_buf t, rx_buf t, len t)) read_message = [(None, Some Rx_buffer, 256)]
       \<and> applespi_sync_read poll_miso st = ([], st\<lparr>rx_buffer := poll_miso 0\<rparr>)"
  using assms
  by (simp add: read_message_def write_and_response_message_def APPLESPI_PACKET_SIZE_def
      applespi_sync_read_eq applespi_sync_write_and_response_eq applespi_data_ok_def)

text \<open>
  The amended claim C8 at a concrete device answer: the four bytes 1, 2, 3, 4 of the
  second transfer are gone from the buffer.
\<close>

theorem transaction_shape_witness:
  "applespi_data_ok idle_data
   \<and> length [1, 2, 3, 4 :: u8] = 4
   \<and> length two_finger_frame = APPLESPI_PACKET_SIZE
   \<and> length nothing_frame = APPLESPI_PACKET_SIZE
   \<and> applespi_sync_write_and_response (\<lambda>k. if k = 1 then [1, 2, 3, 4] else two_finger_frame) idle_data
       = ([replicate 256 0], idle_data\<lparr>rx_buffer := two_finger_frame\<rparr>)
   \<and> applespi_sync_read (\<lambda>k. nothing_frame) idle_data
       = ([], idle_data\<lparr>rx_buffer := nothing_frame\<rparr>)"
proof -
  have ok: "applespi_data_ok idle_data"
    by (simp add: applespi_data_ok_def idle_data_def applespi_probe_data_def
        APPLESPI_PACKET_SIZE_def MAX_ROLLOVER_def MAX_FINGERS_def)
  have l2: "length two_finger_frame = APPLESPI_PACKET_SIZE"
    by (simp add: two_finger_frame_def touchpad_frame_def finger_bytes_of_def le16_bytes_def
        APPLESPI_PACKET_SIZE_def)
  have l0: "length nothing_frame = APPLESPI_PACKET_SIZE"
    by (simp add: nothing_frame_def APPLESPI_PACKET_SIZE_def)
  have tx: "tx_buffer idle_data = replicate 256 0"
    by (simp add: idle_data_def applespi_probe_data_def)
  from transaction_shape [of idle_data "\<lambda>k. if k = 1 then [1, 2, 3, 4] else two_finger_frame"
      "\<lambda>k. nothing_frame"] ok l2 l0
  show ?thesis
    by (simp add: tx)
qed

end
